theory Spec2Isabelle
  imports Main "HOL-Library.AList"
begin

text \<open>
  A model of the preprocessor of \<open>src/lib/index.ts\<close>: the per-document transform that
  rewrites the calls of the functions named \<open>server_...\<close> into fetch expressions, removes
  their definitions and prunes the imports, and the endpoint manager that writes one
  handler module per function at startup. The Svelte parser, the SHA-256 digest and the
  path functions of Node are parameters of the model; strings, trees, the file system and
  the errors caught by the code are modelled as values.
\<close>

section \<open>JavaScript strings\<close>

text \<open>
  A JavaScript string is modelled as a \<^typ>\<open>string\<close>: one \<^typ>\<open>char\<close> per UTF-16 code unit
  (code units below 256 only). Offsets are \<^typ>\<open>int\<close>, as \<open>String.prototype.slice\<close> accepts
  negative and out-of-range offsets and clamps them.
\<close>

definition clampIndex :: "nat \<Rightarrow> int \<Rightarrow> nat" where
  "clampIndex len i = (if i < 0 then nat (max (int len + i) 0) else min (nat i) len)"

definition slice :: "string \<Rightarrow> int \<Rightarrow> int \<Rightarrow> string" where
  "slice s a b =
     (let from = clampIndex (length s) a; to = clampIndex (length s) b
      in take (to - from) (drop from s))"

definition sliceFrom :: "string \<Rightarrow> int \<Rightarrow> string" where
  "sliceFrom s a = drop (clampIndex (length s) a) s"

definition isWhiteSpace :: "char \<Rightarrow> bool" where
  "isWhiteSpace c \<longleftrightarrow>
     c \<in> {CHR 0x09, CHR 0x0A, CHR 0x0B, CHR 0x0C, CHR 0x0D, CHR 0x20, CHR 0xA0}"

definition trimStart :: "string \<Rightarrow> string" where
  "trimStart s = dropWhile isWhiteSpace s"

definition trimEnd :: "string \<Rightarrow> string" where
  "trimEnd s = rev (dropWhile isWhiteSpace (rev s))"

definition trim :: "string \<Rightarrow> string" where
  "trim s = trimEnd (trimStart s)"

definition startsWith :: "string \<Rightarrow> string \<Rightarrow> bool" where
  "startsWith s p \<longleftrightarrow> take (length p) s = p"

definition endsWith :: "string \<Rightarrow> string \<Rightarrow> bool" where
  "endsWith s p \<longleftrightarrow> drop (length s - length p) s = p"

fun includesStr :: "string \<Rightarrow> string \<Rightarrow> bool" where
  "includesStr [] p = (p = [])"
| "includesStr (c # s) p = (startsWith (c # s) p \<or> includesStr s p)"

text \<open>\<open>s.split(',')\<close>: the pieces between the commas; never an empty array.\<close>

fun split :: "char \<Rightarrow> string \<Rightarrow> string list" where
  "split sep [] = [[]]"
| "split sep (c # s) =
     (if c = sep then [] # split sep s
      else (case split sep s of
              [] \<Rightarrow> [[c]]
            | p # ps \<Rightarrow> (c # p) # ps))"

fun join :: "string \<Rightarrow> string list \<Rightarrow> string" where
  "join sep [] = []"
| "join sep [p] = p"
| "join sep (p # q # ps) = p @ sep @ join sep (q # ps)"

text \<open>The decimal text of an array index, as a template literal prints it.\<close>

definition digit :: "nat \<Rightarrow> char" where
  "digit d = char_of (48 + d)"

function showNat :: "nat \<Rightarrow> string" where
  "showNat n = (if n < 10 then [digit n] else showNat (n div 10) @ [digit (n mod 10)])"
  by pat_completeness auto
termination
  by (relation "measure id") auto

section \<open>Syntax trees\<close>

text \<open>
  A node as the interface \<open>SvelteNode\<close> reads it: its \<open>type\<close>, \<open>start\<close> and \<open>end\<close>, the
  \<open>async\<close> flag, the \<open>name\<close> of an identifier, and its node-valued properties in the order
  of the object's keys, which is the order \<open>walk\<close> visits them in. A property holding one
  node is a singleton list, \<open>null\<close> or a missing key the empty list.
\<close>

datatype node = Node
  (ntype: string)
  (nstart: int)
  (nend: int)
  (nasync: bool)
  (nname: "string option")
  (nfields: "(string \<times> node list) list")

definition nodesAt :: "node \<Rightarrow> string \<Rightarrow> node list" where
  "nodesAt n k = (case map_of (nfields n) k of None \<Rightarrow> [] | Some ns \<Rightarrow> ns)"

definition nodeAt :: "node \<Rightarrow> string \<Rightarrow> node option" where
  "nodeAt n k = (case nodesAt n k of [] \<Rightarrow> None | m # _ \<Rightarrow> Some m)"

definition children :: "node \<Rightarrow> node list" where
  "children n = concat (map snd (nfields n))"

record script =
  sc_content :: node

record root =
  fragment :: "node option"
  "instance" :: "script option"

datatype error = ParseError | TypeError

text \<open>\<open>walk(ast, { enter })\<close> of estree-walker: the nodes in the order \<open>enter\<close> sees them.\<close>

fun walk :: "node \<Rightarrow> node list" where
  "walk (Node t s e a nm fs) =
     Node t s e a nm fs # concat (map (\<lambda>kv. concat (map walk (snd kv))) fs)"

section \<open>Locating tagged functions and their call sites\<close>

record ServerFunction =
  sf_name :: string
  sf_node :: node
  sf_start :: int
  sf_end :: int

record Span =
  sp_start :: int
  sp_end :: int

record FunctionCall =
  fc_start :: int
  fc_end :: int
  fc_arguments :: Span

record ImportNode =
  in_start :: int
  in_end :: int

text \<open>The test of \<open>findServerFunctions\<close>: \<open>node.id?.name?.startsWith('server_')\<close> is false
  when the node has no id or the id has no name.\<close>

definition isServerFunction :: "node \<Rightarrow> bool" where
  "isServerFunction n \<longleftrightarrow>
     ntype n = ''FunctionDeclaration'' \<and> nasync n \<and>
     (case nodeAt n ''id'' of
        None \<Rightarrow> False
      | Some i \<Rightarrow> (case nname i of None \<Rightarrow> False | Some nm \<Rightarrow> startsWith nm ''server_''))"

definition idName :: "node \<Rightarrow> string" where
  "idName n = (case nodeAt n ''id'' of None \<Rightarrow> [] | Some i \<Rightarrow> (case nname i of None \<Rightarrow> [] | Some nm \<Rightarrow> nm))"

definition serverFunctionOf :: "node \<Rightarrow> ServerFunction" where
  "serverFunctionOf n = \<lparr>sf_name = idName n, sf_node = n, sf_start = nstart n, sf_end = nend n\<rparr>"

definition findServerFunctions :: "root \<Rightarrow> ServerFunction list" where
  "findServerFunctions ast =
     (case instance ast of
        None \<Rightarrow> []
      | Some scr \<Rightarrow> map serverFunctionOf (filter isServerFunction (walk (sc_content scr))))"

text \<open>The test of \<open>findFunctionCalls\<close>: \<open>node.callee?.name === functionName\<close>.\<close>

definition isCallTo :: "string \<Rightarrow> node \<Rightarrow> bool" where
  "isCallTo functionName n \<longleftrightarrow>
     ntype n = ''CallExpression'' \<and>
     (case nodeAt n ''callee'' of None \<Rightarrow> False | Some c \<Rightarrow> nname c = Some functionName)"

text \<open>\<open>a || b\<close> on offsets: \<open>b\<close> when \<open>a\<close> is undefined or 0.\<close>

definition orElse :: "int option \<Rightarrow> int \<Rightarrow> int" where
  "orElse a b = (case a of None \<Rightarrow> b | Some v \<Rightarrow> if v = 0 then b else v)"

definition functionCallOf :: "node \<Rightarrow> FunctionCall" where
  "functionCallOf n =
     (let args = nodesAt n ''arguments'' in
      \<lparr>fc_start = nstart n,
       fc_end = nend n,
       fc_arguments =
         \<lparr>sp_start = orElse (case args of [] \<Rightarrow> None | a # _ \<Rightarrow> Some (nstart a)) (nend n - 1),
          sp_end = orElse (if args = [] then None else Some (nend (last args))) (nend n - 1)\<rparr>\<rparr>)"

definition callsIn :: "string \<Rightarrow> node \<Rightarrow> FunctionCall list" where
  "callsIn functionName tree = map functionCallOf (filter (isCallTo functionName) (walk tree))"

definition findFunctionCalls :: "root \<Rightarrow> string \<Rightarrow> FunctionCall list" where
  "findFunctionCalls ast functionName =
     (case fragment ast of None \<Rightarrow> [] | Some frag \<Rightarrow> callsIn functionName frag) @
     (case instance ast of None \<Rightarrow> [] | Some scr \<Rightarrow> callsIn functionName (sc_content scr))"

section \<open>Identifier usage and unused imports\<close>

text \<open>The walk of \<open>collectUsedIdentifiers\<close>: an import declaration (or a child of one) is
  skipped with its subtree; an identifier adds its name, which may be undefined.\<close>

fun usedIn :: "node option \<Rightarrow> node \<Rightarrow> string option list" where
  "usedIn parent (Node t s e a nm fs) =
     (if t = ''ImportDeclaration'' \<or>
         (case parent of None \<Rightarrow> False | Some p \<Rightarrow> ntype p = ''ImportDeclaration'')
      then []
      else (if t = ''Identifier'' then [nm] else []) @
           concat (map (\<lambda>kv. concat (map (usedIn (Some (Node t s e a nm fs))) (snd kv))) fs))"

definition collectUsedIdentifiers :: "root \<Rightarrow> string option set" where
  "collectUsedIdentifiers ast =
     (case instance ast of None \<Rightarrow> {} | Some scr \<Rightarrow> set (usedIn None (sc_content scr)))"

text \<open>\<open>specifiers.every(s => !used.has(s.local.name))\<close>: it stops at the first used name; a
  specifier without \<open>local\<close> met before that throws a TypeError.\<close>

fun allSpecifiersUnused :: "string option set \<Rightarrow> node list \<Rightarrow> error + bool" where
  "allSpecifiersUnused used [] = Inr True"
| "allSpecifiersUnused used (s # ss) =
     (case nodeAt s ''local'' of
        None \<Rightarrow> Inl TypeError
      | Some l \<Rightarrow> if nname l \<in> used then Inr False else allSpecifiersUnused used ss)"

definition importNodeOf :: "node \<Rightarrow> ImportNode" where
  "importNodeOf n = \<lparr>in_start = nstart n, in_end = nend n\<rparr>"

fun unusedAmong :: "string option set \<Rightarrow> node list \<Rightarrow> error + ImportNode list" where
  "unusedAmong used [] = Inr []"
| "unusedAmong used (n # ns) =
     (if ntype n = ''ImportDeclaration'' then
        (case allSpecifiersUnused used (nodesAt n ''specifiers'') of
           Inl err \<Rightarrow> Inl err
         | Inr unused \<Rightarrow>
             (case unusedAmong used ns of
                Inl err \<Rightarrow> Inl err
              | Inr rest \<Rightarrow> Inr (if unused then importNodeOf n # rest else rest)))
      else unusedAmong used ns)"

definition findUnusedImports :: "root \<Rightarrow> string option set \<Rightarrow> error + ImportNode list" where
  "findUnusedImports ast usedIdentifiers =
     (case instance ast of
        None \<Rightarrow> Inr []
      | Some scr \<Rightarrow> unusedAmong usedIdentifiers (walk (sc_content scr)))"

section \<open>Paths and stable ids\<close>

text \<open>
  What the engine takes from its host and its libraries: the Svelte parser, the SHA-256
  digest in base64url, \<open>path.relative(path.join(process.cwd(), 'src'), path.normalize(f))\<close>
  and \<open>process.cwd()\<close>.
\<close>

record host =
  parse :: "string \<Rightarrow> error + root"
  sha256Base64url :: "string \<Rightarrow> string"
  relativeToSrc :: "string \<Rightarrow> string"
  cwd :: string

record PathResult =
  pr_apiPath :: string
  pr_routePath :: string

definition replaceBackslashes :: "string \<Rightarrow> string" where
  "replaceBackslashes s = map (\<lambda>c. if c = CHR 0x5C then CHR ''/'' else c) s"

definition truthy :: "string option \<Rightarrow> bool" where
  "truthy s \<longleftrightarrow> (case s of None \<Rightarrow> False | Some f \<Rightarrow> f \<noteq> [])"

definition generatePaths :: "host \<Rightarrow> string \<Rightarrow> string option \<Rightarrow> PathResult" where
  "generatePaths h functionName filename =
     (let relativePath =
            (if truthy filename then replaceBackslashes (relativeToSrc h (the filename))
             else ''unknown'');
          str = relativePath @ '':'' @ functionName;
          hash = slice (sha256Base64url h str) 0 8;
          uniquePath = functionName @ ''_'' @ hash
      in \<lparr>pr_apiPath = cwd h @ ''/src/routes/api/'' @ uniquePath @ ''/+server.ts'',
          pr_routePath = uniquePath\<rparr>)"

section \<open>The per-document transform\<close>

fun indexed :: "nat \<Rightarrow> 'a list \<Rightarrow> (nat \<times> 'a) list" where
  "indexed i [] = []"
| "indexed i (x # xs) = (i, x) # indexed (Suc i) xs"

definition payloadOf :: "string \<Rightarrow> string" where
  "payloadOf params =
     (if trim params \<noteq> []
      then ''{'' @
           join '','' (map (\<lambda>(i, p). [CHR 0x22] @ showNat i @ [CHR 0x22] @ '': '' @ trim p)
                         (indexed 0 (split CHR '','' params))) @
           ''}''
      else ''{}'')"

definition fetchText :: "string \<Rightarrow> string \<Rightarrow> string" where
  "fetchText routePath payloadStr =
     ''fetch('/api/'' @ routePath @ [CHR 0x27] @ '', {\<newline>'' @
     ''        method: 'POST',\<newline>'' @
     ''        headers: { 'Content-Type': 'application/json' },\<newline>'' @
     ''        body: JSON.stringify('' @ payloadStr @ '')\<newline>'' @
     ''    }).then(response => {\<newline>'' @
     ''        if (!response.ok) throw new Error('API call failed: ' + response.statusText);\<newline>'' @
     ''        return response.json();\<newline>'' @
     ''    })''"

definition generateFetchCall :: "string \<Rightarrow> string \<Rightarrow> string" where
  "generateFetchCall routePath params = fetchText routePath (payloadOf params)"

text \<open>Sorting with the comparator \<open>(a, b) => b.start - a.start\<close>: stable, descending.\<close>

definition sortDescending :: "('a \<Rightarrow> int) \<Rightarrow> 'a list \<Rightarrow> 'a list" where
  "sortDescending start xs = sort_key (\<lambda>x. - start x) xs"

definition rewriteCall :: "string \<Rightarrow> string \<Rightarrow> FunctionCall \<Rightarrow> string" where
  "rewriteCall routePath content call =
     (let argsText = slice content (sp_start (fc_arguments call)) (sp_end (fc_arguments call));
          fetchCall = generateFetchCall routePath argsText
      in slice content 0 (fc_start call) @ fetchCall @ sliceFrom content (fc_end call))"

definition removeSpan :: "string \<Rightarrow> int \<Rightarrow> int \<Rightarrow> string" where
  "removeSpan content a b = trimEnd (slice content 0 a) @ ''\<newline>'' @ trimStart (sliceFrom content b)"

definition cleanupUnusedImports :: "host \<Rightarrow> string \<Rightarrow> string" where
  "cleanupUnusedImports h content =
     (case parse h content of
        Inl err \<Rightarrow> content
      | Inr updatedAst \<Rightarrow>
          (case findUnusedImports updatedAst (collectUsedIdentifiers updatedAst) of
             Inl err \<Rightarrow> content
           | Inr unusedImports \<Rightarrow>
               foldl (\<lambda>c importNode. removeSpan c (in_start importNode) (in_end importNode))
                 content (sortDescending in_start unusedImports)))"

definition rewriteCalls :: "root \<Rightarrow> string \<Rightarrow> ServerFunction \<Rightarrow> string \<Rightarrow> string" where
  "rewriteCalls ast content serverFunc routePath =
     foldl (rewriteCall routePath) content
       (sortDescending fc_start (findFunctionCalls ast (sf_name serverFunc)))"

definition transformServerFunction ::
  "host \<Rightarrow> root \<Rightarrow> string \<Rightarrow> ServerFunction \<Rightarrow> string \<Rightarrow> string" where
  "transformServerFunction h ast content serverFunc routePath =
     (let content1 = rewriteCalls ast content serverFunc routePath;
          content2 = removeSpan content1 (sf_start serverFunc) (sf_end serverFunc)
      in cleanupUnusedImports h content2)"

text \<open>\<open>process\<close>: the tree is the one the constructor parsed; only the text is updated.\<close>

definition process :: "host \<Rightarrow> string option \<Rightarrow> root \<Rightarrow> string \<Rightarrow> string" where
  "process h filename ast content =
     (let serverFunctions = findServerFunctions ast in
      if serverFunctions = [] then content
      else foldl (\<lambda>c func.
                    transformServerFunction h ast c func
                      (pr_routePath (generatePaths h (sf_name func) filename)))
             content (sortDescending sf_start serverFunctions))"

definition isSkippableFile :: "string option \<Rightarrow> bool" where
  "isSkippableFile filename \<longleftrightarrow>
     (if \<not> truthy filename \<or> \<not> endsWith (the filename) ''.svelte'' then True
      else list_ex (\<lambda>skipPath. includesStr (the filename) skipPath) [''.svelte-kit'', ''node_modules''])"

record PreprocessorResult =
  code :: string

definition transformFile :: "host \<Rightarrow> string \<Rightarrow> string option \<Rightarrow> PreprocessorResult" where
  "transformFile h content filename =
     (if isSkippableFile filename \<or> \<not> includesStr content ''async function server_''
      then \<lparr>code = content\<rparr>
      else (case parse h content of
              Inl err \<Rightarrow> \<lparr>code = content\<rparr>
            | Inr ast \<Rightarrow> \<lparr>code = process h filename ast content\<rparr>))"

section \<open>The file system and the endpoint manager\<close>

text \<open>
  The file system is a table from absolute paths to entries, with a log of the calls that
  change it. \<open>path.join\<close> is concatenation with \<open>/\<close> (the paths the engine joins are
  normalised). A call that throws in Node returns \<open>Inl\<close>.
\<close>

datatype entry = File string | Directory

datatype fsOp = RmSync string | MkdirSync string | WriteFileSync string string

datatype fsError = FsError

record fileSystem =
  entries :: "(string \<times> entry) list"
  oplog :: "fsOp list"

definition existsSync :: "fileSystem \<Rightarrow> string \<Rightarrow> bool" where
  "existsSync fs p \<longleftrightarrow> map_of (entries fs) p \<noteq> None"

definition isDirectory :: "fileSystem \<Rightarrow> string \<Rightarrow> bool" where
  "isDirectory fs p \<longleftrightarrow> map_of (entries fs) p = Some Directory"

definition under :: "string \<Rightarrow> string \<Rightarrow> bool" where
  "under dir p \<longleftrightarrow> startsWith p (dir @ ''/'') \<and> length dir + 1 < length p"

definition relativeTo :: "string \<Rightarrow> string \<Rightarrow> string" where
  "relativeTo dir p = drop (length dir + 1) p"

definition readdirRecursive :: "fileSystem \<Rightarrow> string \<Rightarrow> fsError + string list" where
  "readdirRecursive fs dir =
     (if isDirectory fs dir
      then Inr (map (relativeTo dir) (filter (under dir) (map fst (entries fs))))
      else Inl FsError)"

definition readdirSync :: "fileSystem \<Rightarrow> string \<Rightarrow> fsError + string list" where
  "readdirSync fs dir =
     (case readdirRecursive fs dir of
        Inl err \<Rightarrow> Inl err
      | Inr names \<Rightarrow> Inr (filter (\<lambda>name. CHR ''/'' \<notin> set name) names))"

definition readFileSync :: "fileSystem \<Rightarrow> string \<Rightarrow> fsError + string" where
  "readFileSync fs p =
     (case map_of (entries fs) p of Some (File text) \<Rightarrow> Inr text | _ \<Rightarrow> Inl FsError)"

definition rmSync :: "fileSystem \<Rightarrow> string \<Rightarrow> fileSystem" where
  "rmSync fs p =
     fs\<lparr>entries := filter (\<lambda>kv. fst kv \<noteq> p \<and> \<not> under p (fst kv)) (entries fs),
        oplog := oplog fs @ [RmSync p]\<rparr>"

text \<open>The directories \<open>mkdirSync(p, { recursive: true })\<close> needs: \<open>p\<close> and what is above it.\<close>

definition ancestors :: "string \<Rightarrow> string list" where
  "ancestors p = map (\<lambda>i. take i p) (filter (\<lambda>i. p ! i = CHR ''/'') [1..<length p]) @ [p]"

definition mkdirSync :: "fileSystem \<Rightarrow> string \<Rightarrow> fsError + fileSystem" where
  "mkdirSync fs p =
     (if list_ex (\<lambda>a. case map_of (entries fs) a of Some (File text) \<Rightarrow> True | _ \<Rightarrow> False)
           (ancestors p)
      then Inl FsError
      else Inr (fs\<lparr>entries :=
                       entries fs @
                       map (\<lambda>a. (a, Directory))
                         (filter (\<lambda>a. map_of (entries fs) a = None) (ancestors p)),
                   oplog := oplog fs @ [MkdirSync p]\<rparr>))"

definition writeFileSync :: "fileSystem \<Rightarrow> string \<Rightarrow> string \<Rightarrow> fsError + fileSystem" where
  "writeFileSync fs p text =
     (if isDirectory fs p then Inl FsError
      else Inr (fs\<lparr>entries := AList.update p (File text) (entries fs),
                   oplog := oplog fs @ [WriteFileSync p text]\<rparr>))"

definition dirname :: "string \<Rightarrow> string" where
  "dirname p =
     (if CHR ''/'' \<notin> set p then ''.''
      else (let d = rev (drop 1 (dropWhile (\<lambda>c. c \<noteq> CHR ''/'') (rev p)))
            in if d = [] then ''/'' else d))"

definition apiDir :: "host \<Rightarrow> string" where
  "apiDir h = cwd h @ ''/src/routes/api''"

definition srcDir :: "host \<Rightarrow> string" where
  "srcDir h = cwd h @ ''/src''"

text \<open>\<open>cleanupEndpoints\<close>. Every name comes from the listing just read and no removal
  touches another name's entry, so \<open>statSync\<close> finds each path.\<close>

definition cleanupEndpoints :: "host \<Rightarrow> fileSystem \<Rightarrow> fileSystem" where
  "cleanupEndpoints h fs =
     (if \<not> existsSync fs (apiDir h) then fs
      else (case readdirSync fs (apiDir h) of
              Inl err \<Rightarrow> fs
            | Inr names \<Rightarrow>
                foldl (\<lambda>fs' endpoint.
                         let endpointPath = apiDir h @ ''/'' @ endpoint
                         in if isDirectory fs' endpointPath then rmSync fs' endpointPath else fs')
                  fs (filter (\<lambda>endpoint. startsWith endpoint ''server_'') names)))"

record FunctionDetails =
  fd_imports :: "string list"
  fd_functionDefinition :: string

text \<open>A JavaScript \<open>Set\<close> turned into an array: each element once, at its first place.\<close>

definition setToArray :: "'a list \<Rightarrow> 'a list" where
  "setToArray xs = rev (remdups (rev xs))"

text \<open>\<open>specifiers.map(s => s.local.name)\<close>: every specifier is read.\<close>

fun importedNames :: "node list \<Rightarrow> error + string option list" where
  "importedNames [] = Inr []"
| "importedNames (s # ss) =
     (case nodeAt s ''local'' of
        None \<Rightarrow> Inl TypeError
      | Some l \<Rightarrow> (case importedNames ss of Inl err \<Rightarrow> Inl err | Inr names \<Rightarrow> Inr (nname l # names)))"

fun relevantImports :: "string \<Rightarrow> string option set \<Rightarrow> node list \<Rightarrow> error + string list" where
  "relevantImports text used [] = Inr []"
| "relevantImports text used (n # ns) =
     (if ntype n = ''ImportDeclaration'' then
        (case importedNames (nodesAt n ''specifiers'') of
           Inl err \<Rightarrow> Inl err
         | Inr names \<Rightarrow>
             (case relevantImports text used ns of
                Inl err \<Rightarrow> Inl err
              | Inr rest \<Rightarrow>
                  Inr (if list_ex (\<lambda>name. name \<in> used) names
                       then slice text (nstart n) (nend n) # rest else rest)))
      else relevantImports text used ns)"

definition identifiersOf :: "node \<Rightarrow> string option set" where
  "identifiersOf n = set (map nname (filter (\<lambda>m. ntype m = ''Identifier'') (walk n)))"

definition extractFunctionDetails :: "host \<Rightarrow> string \<Rightarrow> ServerFunction \<Rightarrow> error + FunctionDetails" where
  "extractFunctionDetails h text serverFunc =
     (case parse h text of
        Inl err \<Rightarrow> Inl err
      | Inr ast \<Rightarrow>
          (case (case instance ast of
                   None \<Rightarrow> Inr []
                 | Some scr \<Rightarrow>
                     relevantImports text (identifiersOf (sf_node serverFunc)) (walk (sc_content scr))) of
             Inl err \<Rightarrow> Inl err
           | Inr found \<Rightarrow>
               Inr \<lparr>fd_imports = setToArray found,
                    fd_functionDefinition = slice text (sf_start serverFunc) (sf_end serverFunc)\<rparr>))"

definition generateApiContent :: "string \<Rightarrow> string \<Rightarrow> string list \<Rightarrow> string" where
  "generateApiContent functionDefinition functionName imports =
     join ''\<newline>'' imports @
     ''\<newline>\<newline>import { json } from '@sveltejs/kit';\<newline>'' @
     ''import type { RequestHandler } from './$types';\<newline>\<newline>'' @
     ''export const POST: RequestHandler = async ({ request }) => {\<newline>    '' @
     functionDefinition @
     ''\<newline>    const payload: Record<string, unknown> = await request.json();\<newline>'' @
     ''    const args = Object.values(payload) as Parameters<typeof '' @ functionName @ ''>;\<newline>'' @
     ''    const result = await '' @ functionName @ ''(...args);\<newline>'' @
     ''    return json(result);\<newline>'' @
     ''};''"

definition createEndpoint ::
  "host \<Rightarrow> fileSystem \<Rightarrow> string \<Rightarrow> string \<Rightarrow> ServerFunction \<Rightarrow> fileSystem" where
  "createEndpoint h fs apiPath text serverFunc =
     (case extractFunctionDetails h text serverFunc of
        Inl err \<Rightarrow> fs
      | Inr details \<Rightarrow>
          (let apiContent =
                 generateApiContent (fd_functionDefinition details) (sf_name serverFunc)
                   (fd_imports details)
           in case mkdirSync fs (dirname apiPath) of
                Inl err \<Rightarrow> fs
              | Inr fs1 \<Rightarrow>
                  (if \<not> existsSync fs1 apiPath then
                     (case writeFileSync fs1 apiPath apiContent of Inl err \<Rightarrow> fs1 | Inr fs2 \<Rightarrow> fs2)
                   else
                     (case readFileSync fs1 apiPath of
                        Inl err \<Rightarrow> fs1
                      | Inr old \<Rightarrow>
                          if old \<noteq> apiContent then
                            (case writeFileSync fs1 apiPath apiContent of
                               Inl err \<Rightarrow> fs1
                             | Inr fs2 \<Rightarrow> fs2)
                          else fs1))))"

definition processFile :: "host \<Rightarrow> fileSystem \<Rightarrow> string \<Rightarrow> fileSystem" where
  "processFile h fs filePath =
     (case readFileSync fs filePath of
        Inl err \<Rightarrow> fs
      | Inr text \<Rightarrow>
          if \<not> includesStr text ''async function server_'' then fs
          else (case parse h text of
                  Inl err \<Rightarrow> fs
                | Inr ast \<Rightarrow>
                    foldl (\<lambda>fs' func.
                             createEndpoint h fs'
                               (pr_apiPath (generatePaths h (sf_name func) (Some filePath)))
                               text func)
                      fs (findServerFunctions ast)))"

definition scanAndCreateEndpoints :: "host \<Rightarrow> fileSystem \<Rightarrow> fileSystem" where
  "scanAndCreateEndpoints h fs =
     (case readdirRecursive fs (srcDir h) of
        Inl err \<Rightarrow> fs
      | Inr files \<Rightarrow>
          foldl (\<lambda>fs' file.
                   if endsWith file ''.svelte'' then processFile h fs' (srcDir h @ ''/'' @ file)
                   else fs')
            fs files)"

section \<open>The preprocessor\<close>

record PreprocessorContext =
  ctx_content :: string
  ctx_filename :: "string option"

datatype hook = Markup | Style | Script

text \<open>
  \<open>serverFunctions()\<close> runs the startup sweep (cleanup, then scan and create) and returns the
  object holding the three callbacks. A callback is given the file system it runs in and
  returns it with its result.
\<close>

definition startup :: "host \<Rightarrow> fileSystem \<Rightarrow> fileSystem" where
  "startup h fs = scanAndCreateEndpoints h (cleanupEndpoints h fs)"

definition runHook ::
  "host \<Rightarrow> hook \<Rightarrow> PreprocessorContext \<Rightarrow> fileSystem \<Rightarrow> PreprocessorResult \<times> fileSystem" where
  "runHook h k ctx fs =
     (case k of
        Markup \<Rightarrow> (transformFile h (ctx_content ctx) (ctx_filename ctx), fs)
      | Style \<Rightarrow> (\<lparr>code = ctx_content ctx\<rparr>, fs)
      | Script \<Rightarrow> (transformFile h (ctx_content ctx) (ctx_filename ctx), fs))"

definition serverFunctions ::
  "host \<Rightarrow> fileSystem \<Rightarrow>
   (hook \<Rightarrow> PreprocessorContext \<Rightarrow> fileSystem \<Rightarrow> PreprocessorResult \<times> fileSystem) \<times> fileSystem" where
  "serverFunctions h fs = (runHook h, startup h fs)"

section \<open>Example documents\<close>

text \<open>
  Small documents with the trees the Svelte parser gives for them (offsets into the text),
  used to run the engine. The example host parses these documents and rejects every other
  text; its digest holds the SHA-256 digests of the strings the examples hash (any other
  string gets the digest of the empty string), and its relative path is the POSIX one for
  files below \<open>/app/src\<close>.
\<close>

definition identifierAt :: "int \<Rightarrow> int \<Rightarrow> string \<Rightarrow> node" where
  "identifierAt s e nm = Node ''Identifier'' s e False (Some nm) []"

definition leaf :: "string \<Rightarrow> int \<Rightarrow> int \<Rightarrow> node" where
  "leaf t s e = Node t s e False None []"

definition docTwo :: string where
  "docTwo =
     ''<script>\<newline>'' @
     ''async function server_a() {}\<newline>'' @
     ''async function server_b() {}\<newline>'' @
     ''</script>\<newline>'' @
     ''{server_a()}''"

definition astTwo :: root where
  "astTwo =
     \<lparr>fragment = Some
        (Node ''Fragment'' 0 0 False None
          [(''nodes'',
             [leaf ''Text'' 76 77,
              Node ''ExpressionTag'' 77 89 False None
                [(''expression'',
                   [Node ''CallExpression'' 78 88 False None
                      [(''callee'',
                         [identifierAt 78 86 ''server_a'']),
                       (''arguments'', [])]])]])]),
      instance = Some \<lparr>sc_content =
        Node ''Program'' 8 67 False None
          [(''body'',
             [Node ''FunctionDeclaration'' 9 37 True None
                [(''id'',
                   [identifierAt 24 32 ''server_a'']),
                 (''params'', []),
                 (''body'',
                   [Node ''BlockStatement'' 35 37 False None
                      [(''body'', [])]])],
              Node ''FunctionDeclaration'' 38 66 True None
                [(''id'',
                   [identifierAt 53 61 ''server_b'']),
                 (''params'', []),
                 (''body'',
                   [Node ''BlockStatement'' 64 66 False None
                      [(''body'', [])]])]])]\<rparr>\<rparr>"

definition docTwoAfterB :: string where
  "docTwoAfterB =
     ''<script>\<newline>'' @
     ''async function server_a() {}\<newline>'' @
     ''</script>\<newline>'' @
     ''{server_a()}''"

definition astTwoAfterB :: root where
  "astTwoAfterB =
     \<lparr>fragment = Some
        (Node ''Fragment'' 0 0 False None
          [(''nodes'',
             [leaf ''Text'' 47 48,
              Node ''ExpressionTag'' 48 60 False None
                [(''expression'',
                   [Node ''CallExpression'' 49 59 False None
                      [(''callee'',
                         [identifierAt 49 57 ''server_a'']),
                       (''arguments'', [])]])]])]),
      instance = Some \<lparr>sc_content =
        Node ''Program'' 8 38 False None
          [(''body'',
             [Node ''FunctionDeclaration'' 9 37 True None
                [(''id'',
                   [identifierAt 24 32 ''server_a'']),
                 (''params'', []),
                 (''body'',
                   [Node ''BlockStatement'' 35 37 False None
                      [(''body'', [])]])]])]\<rparr>\<rparr>"

definition docComma :: string where
  "docComma =
     ''<script>\<newline>'' @
     ''async function server_f(a) { return a }\<newline>'' @
     ''server_f([1,2]);\<newline>'' @
     ''</script>''"

definition astComma :: root where
  "astComma =
     \<lparr>fragment = Some
        (Node ''Fragment'' 0 0 False None
          [(''nodes'', [])]),
      instance = Some \<lparr>sc_content =
        Node ''Program'' 8 66 False None
          [(''body'',
             [Node ''FunctionDeclaration'' 9 48 True None
                [(''id'',
                   [identifierAt 24 32 ''server_f'']),
                 (''params'',
                   [identifierAt 33 34 ''a'']),
                 (''body'',
                   [Node ''BlockStatement'' 36 48 False None
                      [(''body'',
                         [Node ''ReturnStatement'' 38 46 False None
                            [(''argument'',
                               [identifierAt 45 46 ''a''])]])]])],
              Node ''ExpressionStatement'' 49 65 False None
                [(''expression'',
                   [Node ''CallExpression'' 49 64 False None
                      [(''callee'',
                         [identifierAt 49 57 ''server_f'']),
                       (''arguments'',
                         [Node ''ArrayExpression'' 58 63 False None
                            [(''elements'',
                               [leaf ''Literal'' 59 60,
                                leaf ''Literal'' 61 62])]])]])]])]\<rparr>\<rparr>"

definition docMarkupImport :: string where
  "docMarkupImport =
     ''<script>\<newline>'' @
     ''import { fmt } from './fmt';\<newline>'' @
     ''async function server_now() { return 1 }\<newline>'' @
     ''</script>\<newline>'' @
     ''{fmt(1)}''"

definition astMarkupImport :: root where
  "astMarkupImport =
     \<lparr>fragment = Some
        (Node ''Fragment'' 0 0 False None
          [(''nodes'',
             [leaf ''Text'' 88 89,
              Node ''ExpressionTag'' 89 97 False None
                [(''expression'',
                   [Node ''CallExpression'' 90 96 False None
                      [(''callee'',
                         [identifierAt 90 93 ''fmt'']),
                       (''arguments'',
                         [leaf ''Literal'' 94 95])]])]])]),
      instance = Some \<lparr>sc_content =
        Node ''Program'' 8 79 False None
          [(''body'',
             [Node ''ImportDeclaration'' 9 37 False None
                [(''specifiers'',
                   [Node ''ImportSpecifier'' 18 21 False None
                      [(''imported'',
                         [identifierAt 18 21 ''fmt'']),
                       (''local'',
                         [identifierAt 18 21 ''fmt''])]]),
                 (''source'',
                   [leaf ''Literal'' 29 36])],
              Node ''FunctionDeclaration'' 38 78 True None
                [(''id'',
                   [identifierAt 53 63 ''server_now'']),
                 (''params'', []),
                 (''body'',
                   [Node ''BlockStatement'' 66 78 False None
                      [(''body'',
                         [Node ''ReturnStatement'' 68 76 False None
                            [(''argument'',
                               [leaf ''Literal'' 75 76])]])]])]])]\<rparr>\<rparr>"

definition docMarkupImportAfter :: string where
  "docMarkupImportAfter =
     ''<script>\<newline>'' @
     ''import { fmt } from './fmt';\<newline>'' @
     ''</script>\<newline>'' @
     ''{fmt(1)}''"

definition astMarkupImportAfter :: root where
  "astMarkupImportAfter =
     \<lparr>fragment = Some
        (Node ''Fragment'' 0 0 False None
          [(''nodes'',
             [leaf ''Text'' 47 48,
              Node ''ExpressionTag'' 48 56 False None
                [(''expression'',
                   [Node ''CallExpression'' 49 55 False None
                      [(''callee'',
                         [identifierAt 49 52 ''fmt'']),
                       (''arguments'',
                         [leaf ''Literal'' 53 54])]])]])]),
      instance = Some \<lparr>sc_content =
        Node ''Program'' 8 38 False None
          [(''body'',
             [Node ''ImportDeclaration'' 9 37 False None
                [(''specifiers'',
                   [Node ''ImportSpecifier'' 18 21 False None
                      [(''imported'',
                         [identifierAt 18 21 ''fmt'']),
                       (''local'',
                         [identifierAt 18 21 ''fmt''])]]),
                 (''source'',
                   [leaf ''Literal'' 29 36])]])]\<rparr>\<rparr>"

definition docImports :: string where
  "docImports =
     ''<script>\<newline>'' @
     ''import { db } from './db';\<newline>'' @
     ''import { log } from './log';\<newline>'' @
     ''async function server_get() { return db }\<newline>'' @
     ''log(1);\<newline>'' @
     ''</script>''"

definition astImports :: root where
  "astImports =
     \<lparr>fragment = Some
        (Node ''Fragment'' 0 0 False None
          [(''nodes'', [])]),
      instance = Some \<lparr>sc_content =
        Node ''Program'' 8 115 False None
          [(''body'',
             [Node ''ImportDeclaration'' 9 35 False None
                [(''specifiers'',
                   [Node ''ImportSpecifier'' 18 20 False None
                      [(''imported'',
                         [identifierAt 18 20 ''db'']),
                       (''local'',
                         [identifierAt 18 20 ''db''])]]),
                 (''source'',
                   [leaf ''Literal'' 28 34])],
              Node ''ImportDeclaration'' 36 64 False None
                [(''specifiers'',
                   [Node ''ImportSpecifier'' 45 48 False None
                      [(''imported'',
                         [identifierAt 45 48 ''log'']),
                       (''local'',
                         [identifierAt 45 48 ''log''])]]),
                 (''source'',
                   [leaf ''Literal'' 56 63])],
              Node ''FunctionDeclaration'' 65 106 True None
                [(''id'',
                   [identifierAt 80 90 ''server_get'']),
                 (''params'', []),
                 (''body'',
                   [Node ''BlockStatement'' 93 106 False None
                      [(''body'',
                         [Node ''ReturnStatement'' 95 104 False None
                            [(''argument'',
                               [identifierAt 102 104 ''db''])]])]])],
              Node ''ExpressionStatement'' 107 114 False None
                [(''expression'',
                   [Node ''CallExpression'' 107 113 False None
                      [(''callee'',
                         [identifierAt 107 110 ''log'']),
                       (''arguments'',
                         [leaf ''Literal'' 111 112])]])]])]\<rparr>\<rparr>"

definition docImportsAfter :: string where
  "docImportsAfter =
     ''<script>\<newline>'' @
     ''import { db } from './db';\<newline>'' @
     ''import { log } from './log';\<newline>'' @
     ''log(1);\<newline>'' @
     ''</script>''"

definition astImportsAfter :: root where
  "astImportsAfter =
     \<lparr>fragment = Some
        (Node ''Fragment'' 0 0 False None
          [(''nodes'', [])]),
      instance = Some \<lparr>sc_content =
        Node ''Program'' 8 73 False None
          [(''body'',
             [Node ''ImportDeclaration'' 9 35 False None
                [(''specifiers'',
                   [Node ''ImportSpecifier'' 18 20 False None
                      [(''imported'',
                         [identifierAt 18 20 ''db'']),
                       (''local'',
                         [identifierAt 18 20 ''db''])]]),
                 (''source'',
                   [leaf ''Literal'' 28 34])],
              Node ''ImportDeclaration'' 36 64 False None
                [(''specifiers'',
                   [Node ''ImportSpecifier'' 45 48 False None
                      [(''imported'',
                         [identifierAt 45 48 ''log'']),
                       (''local'',
                         [identifierAt 45 48 ''log''])]]),
                 (''source'',
                   [leaf ''Literal'' 56 63])],
              Node ''ExpressionStatement'' 65 72 False None
                [(''expression'',
                   [Node ''CallExpression'' 65 71 False None
                      [(''callee'',
                         [identifierAt 65 68 ''log'']),
                       (''arguments'',
                         [leaf ''Literal'' 69 70])]])]])]\<rparr>\<rparr>"

definition docNested :: string where
  "docNested =
     ''<script>\<newline>'' @
     ''function outer() {\<newline>'' @
     ''  async function server_inner() {}\<newline>'' @
     ''}\<newline>'' @
     ''</script>''"

definition astNested :: root where
  "astNested =
     \<lparr>fragment = Some
        (Node ''Fragment'' 0 0 False None
          [(''nodes'', [])]),
      instance = Some \<lparr>sc_content =
        Node ''Program'' 8 65 False None
          [(''body'',
             [Node ''FunctionDeclaration'' 9 64 False None
                [(''id'',
                   [identifierAt 18 23 ''outer'']),
                 (''params'', []),
                 (''body'',
                   [Node ''BlockStatement'' 26 64 False None
                      [(''body'',
                         [Node ''FunctionDeclaration'' 30 62 True None
                            [(''id'',
                               [identifierAt 45 57 ''server_inner'']),
                             (''params'', []),
                             (''body'',
                               [Node ''BlockStatement'' 60 62 False None
                                  [(''body'', [])]])]])]])]])]\<rparr>\<rparr>"

definition docComment :: string where
  "docComment =
     ''<script>\<newline>'' @
     ''// async function server_x\<newline>'' @
     ''</script>''"

definition astComment :: root where
  "astComment =
     \<lparr>fragment = Some
        (Node ''Fragment'' 0 0 False None
          [(''nodes'', [])]),
      instance = Some \<lparr>sc_content =
        Node ''Program'' 8 36 False None
          [(''body'', [])]\<rparr>\<rparr>"

text \<open>
  A document whose second tagged function uses the only import, with the text after
  \<open>server_b\<close> is removed, the text the transform returns, and the text a second transform
  returns.
\<close>

definition docStale :: string where
  "docStale =
     ''<script>\<newline>'' @
     ''import { db } from '$lib/server/database';\<newline>'' @
     ''async function server_a() {}\<newline>'' @
     ''async function server_b() { return db }\<newline>'' @
     ''</script>''"

definition astStale :: root where
  "astStale =
     \<lparr>fragment = Some
        (Node ''Fragment'' 0 0 False None
          [(''nodes'', [])]),
      instance = Some \<lparr>sc_content =
        Node ''Program'' 8 121 False None
          [(''body'',
             [Node ''ImportDeclaration'' 9 51 False None
                [(''specifiers'',
                   [Node ''ImportSpecifier'' 18 20 False None
                      [(''imported'',
                         [identifierAt 18 20 ''db'']),
                       (''local'',
                         [identifierAt 18 20 ''db''])]]),
                 (''source'',
                   [leaf ''Literal'' 28 50])],
              Node ''FunctionDeclaration'' 52 80 True None
                [(''id'',
                   [identifierAt 67 75 ''server_a'']),
                 (''params'', []),
                 (''body'',
                   [Node ''BlockStatement'' 78 80 False None
                      [(''body'', [])]])],
              Node ''FunctionDeclaration'' 81 120 True None
                [(''id'',
                   [identifierAt 96 104 ''server_b'']),
                 (''params'', []),
                 (''body'',
                   [Node ''BlockStatement'' 107 120 False None
                      [(''body'',
                         [Node ''ReturnStatement'' 109 118 False None
                            [(''argument'',
                               [identifierAt 116 118 ''db''])]])]])]])]\<rparr>\<rparr>"

definition docStaleAfterB :: string where
  "docStaleAfterB =
     ''<script>\<newline>'' @
     ''import { db } from '$lib/server/database';\<newline>'' @
     ''async function server_a() {}\<newline>'' @
     ''</script>''"

definition astStaleAfterB :: root where
  "astStaleAfterB =
     \<lparr>fragment = Some
        (Node ''Fragment'' 0 0 False None
          [(''nodes'', [])]),
      instance = Some \<lparr>sc_content =
        Node ''Program'' 8 81 False None
          [(''body'',
             [Node ''ImportDeclaration'' 9 51 False None
                [(''specifiers'',
                   [Node ''ImportSpecifier'' 18 20 False None
                      [(''imported'',
                         [identifierAt 18 20 ''db'']),
                       (''local'',
                         [identifierAt 18 20 ''db''])]]),
                 (''source'',
                   [leaf ''Literal'' 28 50])],
              Node ''FunctionDeclaration'' 52 80 True None
                [(''id'',
                   [identifierAt 67 75 ''server_a'']),
                 (''params'', []),
                 (''body'',
                   [Node ''BlockStatement'' 78 80 False None
                      [(''body'', [])]])]])]\<rparr>\<rparr>"

definition docStaleOnce :: string where
  "docStaleOnce =
     ''<script>\<newline>'' @
     ''async function server_a() {}\<newline>'' @
     ''</script>\<newline>''"

definition astStaleOnce :: root where
  "astStaleOnce =
     \<lparr>fragment = Some
        (Node ''Fragment'' 0 0 False None
          [(''nodes'',
             [leaf ''Text'' 47 48])]),
      instance = Some \<lparr>sc_content =
        Node ''Program'' 8 38 False None
          [(''body'',
             [Node ''FunctionDeclaration'' 9 37 True None
                [(''id'',
                   [identifierAt 24 32 ''server_a'']),
                 (''params'', []),
                 (''body'',
                   [Node ''BlockStatement'' 35 37 False None
                      [(''body'', [])]])]])]\<rparr>\<rparr>"

definition docStaleTwice :: string where
  "docStaleTwice =
     ''<script>\<newline>'' @
     ''</script>\<newline>''"

definition astStaleTwice :: root where
  "astStaleTwice =
     \<lparr>fragment = Some
        (Node ''Fragment'' 0 0 False None
          [(''nodes'',
             [leaf ''Text'' 18 19])]),
      instance = Some \<lparr>sc_content =
        Node ''Program'' 8 9 False None
          [(''body'', [])]\<rparr>\<rparr>"

definition exampleParse :: "string \<Rightarrow> error + root" where
  "exampleParse text =
     (if text = docTwo then Inr astTwo
      else if text = docTwoAfterB then Inr astTwoAfterB
      else if text = docComma then Inr astComma
      else if text = docMarkupImport then Inr astMarkupImport
      else if text = docMarkupImportAfter then Inr astMarkupImportAfter
      else if text = docImports then Inr astImports
      else if text = docImportsAfter then Inr astImportsAfter
      else if text = docNested then Inr astNested
      else if text = docComment then Inr astComment
      else if text = docStale then Inr astStale
      else if text = docStaleAfterB then Inr astStaleAfterB
      else if text = docStaleOnce then Inr astStaleOnce
      else if text = docStaleTwice then Inr astStaleTwice
      else Inl ParseError)"

definition exampleDigest :: "string \<Rightarrow> string" where
  "exampleDigest str =
     (if str = ''routes/+page.svelte:server_a'' then ''xpGru_xmpNZKhFgiW6cBUnkOSCQktQ7yexfsgokbuw4''
      else if str = ''routes/+page.svelte:server_b'' then ''wMcpn0Ab851VwAKOVtr_ZMI09hRqHvD6fDQE0incOp4''
      else if str = ''routes/+page.svelte:server_f'' then ''rRjpf2bO42VTzrpu6UoT1zecY2gYkcsrjLhE7ahaYxU''
      else if str = ''routes/+page.svelte:server_now'' then ''9msDhwuYnWQ8yJH7KRg953KoopWVYp2LmzLFnku3w2Q''
      else if str = ''routes/+page.svelte:server_get'' then ''2jw2AVrpr-FAPdVUFo3mXvLAz0fqPrjijGiuY3kqtMM''
      else if str = ''routes/+page.svelte:server_inner'' then ''T7V-2h0m3JQ06eTHfcSXbtwmRUg9VMOkmE67zYrdC7c''
      else if str = ''a/b.svelte:server_f'' then ''cNPIl-pSoRK09BeJwUJoUeiyZMRMIh4rvcqI0eaLZKU''
      else ''47DEQpj8HBSa-_TImW-5JCeuQeRkm5NMpJWZG3hSuFU'')"

text \<open>\<open>docComma\<close> with its call rewritten and its definition removed.\<close>

definition docCommaEdited :: string where
  "docCommaEdited =
     ''<script>\<newline>'' @
     fetchText ''server_f_rRjpf2bO''
       (''{'' @ [CHR 0x22] @ ''0'' @ [CHR 0x22] @ '': [1,'' @ [CHR 0x22] @ ''1'' @ [CHR 0x22] @ '': 2]}'') @
     '';\<newline>'' @
     ''</script>''"

definition posixRelative :: "string \<Rightarrow> string \<Rightarrow> string" where
  "posixRelative dir f = (if startsWith f (dir @ ''/'') then drop (length dir + 1) f else f)"

definition exampleHost :: host where
  "exampleHost =
     \<lparr>parse = exampleParse, sha256Base64url = exampleDigest,
      relativeToSrc = posixRelative ''/app/src'', cwd = ''/app''\<rparr>"

definition pagePath :: string where
  "pagePath = ''/app/src/routes/+page.svelte''"

definition exampleFs :: fileSystem where
  "exampleFs =
     \<lparr>entries =
        [(''/app'', Directory),
         (''/app/src'', Directory),
         (''/app/src/routes'', Directory),
         (pagePath, File docImports)],
      oplog = []\<rparr>"

section \<open>Notions used to state the properties\<close>

text \<open>A declaration at the top level of the script: a member of the program's body.\<close>

definition topLevel :: "root \<Rightarrow> node \<Rightarrow> bool" where
  "topLevel ast n \<longleftrightarrow>
     (case instance ast of
        None \<Rightarrow> False
      | Some scr \<Rightarrow> n \<in> set (nodesAt (sc_content scr) ''body''))"

text \<open>The files written, in order, with the text written.\<close>

fun writesOf :: "fsOp list \<Rightarrow> (string \<times> string) list" where
  "writesOf [] = []"
| "writesOf (WriteFileSync p text # ops) = (p, text) # writesOf ops"
| "writesOf (RmSync p # ops) = writesOf ops"
| "writesOf (MkdirSync p # ops) = writesOf ops"

text \<open>The local name an import specifier binds.\<close>

definition localName :: "node \<Rightarrow> string option" where
  "localName s = (case nodeAt s ''local'' of None \<Rightarrow> None | Some l \<Rightarrow> nname l)"

text \<open>An import declaration none of whose local names is among the used identifiers.\<close>

definition unusedImport :: "string option set \<Rightarrow> node \<Rightarrow> bool" where
  "unusedImport used n \<longleftrightarrow>
     ntype n = ''ImportDeclaration'' \<and> list_all (\<lambda>s. localName s \<notin> used) (nodesAt n ''specifiers'')"

text \<open>Every import specifier of the list of nodes has its \<open>local\<close> identifier.\<close>

definition specifiersBound :: "node list \<Rightarrow> bool" where
  "specifiersBound ns \<longleftrightarrow>
     list_all (\<lambda>n. ntype n = ''ImportDeclaration'' \<longrightarrow>
                   list_all (\<lambda>s. nodeAt s ''local'' \<noteq> None) (nodesAt n ''specifiers'')) ns"

text \<open>
  The calls of one snapshot replaced by their fetch expressions, every piece taken from the
  snapshot itself; the calls are listed from the last one to the first.
\<close>

fun spliced :: "string \<Rightarrow> string \<Rightarrow> FunctionCall list \<Rightarrow> string" where
  "spliced routePath content [] = content"
| "spliced routePath content (call # calls) =
     spliced routePath (slice content 0 (fc_start call)) calls @
     generateFetchCall routePath
       (slice content (sp_start (fc_arguments call)) (sp_end (fc_arguments call))) @
     sliceFrom content (fc_end call)"

text \<open>Calls inside the buffer, each well formed and ending before the one listed before it.\<close>

fun inOrder :: "int \<Rightarrow> FunctionCall list \<Rightarrow> bool" where
  "inOrder bound [] = True"
| "inOrder bound (call # calls) =
     (0 \<le> fc_start call \<and> fc_start call \<le> sp_start (fc_arguments call) \<and>
      sp_start (fc_arguments call) \<le> sp_end (fc_arguments call) \<and>
      sp_end (fc_arguments call) \<le> fc_end call \<and> fc_end call \<le> bound \<and>
      inOrder (fc_start call) calls)"

text \<open>The endpoint file at \<open>p\<close> needs no write: its directories exist and \<open>p\<close> holds the
  text already (or is a directory, which makes the comparison throw).\<close>

definition settled :: "fileSystem \<Rightarrow> string \<Rightarrow> string \<Rightarrow> bool" where
  "settled fs p text \<longleftrightarrow>
     list_all (\<lambda>a. map_of (entries fs) a = Some Directory) (ancestors (dirname p)) \<and>
     (map_of (entries fs) p = Some Directory \<or> map_of (entries fs) p = Some (File text))"

section \<open>Basic facts\<close>



lemma functionCallOf_span:
  "fc_start (functionCallOf n) = nstart n" "fc_end (functionCallOf n) = nend n"
  by (simp_all add: functionCallOf_def Let_def)

lemma isServerFunction_iff:
  "isServerFunction n \<longleftrightarrow>
     ntype n = ''FunctionDeclaration'' \<and> nasync n \<and>
     (\<exists>i nm. nodeAt n ''id'' = Some i \<and> nname i = Some nm \<and> startsWith nm ''server_'')"
  by (auto simp: isServerFunction_def split: option.splits)

lemma serverFunctionOf_named:
  "nodeAt n ''id'' = Some i \<Longrightarrow> nname i = Some nm \<Longrightarrow>
   serverFunctionOf n = \<lparr>sf_name = nm, sf_node = n, sf_start = nstart n, sf_end = nend n\<rparr>"
  by (simp add: serverFunctionOf_def idName_def)

lemma parse_docComment: "parse exampleHost docComment = Inr astComment"
  by code_simp

section \<open>Call sites without arguments\<close>







section \<open>Transforming twice\<close>

text \<open>
  A document in which no tagged function is found (the text does not parse, or its tree
  has no tagged function) is returned unchanged.
\<close>

lemma transformFile_without_tagged_functions:
  assumes "\<And>ast. parse h content = Inr ast \<Longrightarrow> findServerFunctions ast = []"
  shows "code (transformFile h content filename) = content"
  using assms by (auto simp: transformFile_def process_def Let_def split: sum.splits)

lemma transformFile_docComment:
  "parse exampleHost docComment = Inr astComment \<and>
   \<not> isSkippableFile (Some pagePath) \<and>
   includesStr docComment ''async function server_'' \<and>
   findServerFunctions astComment = [] \<and>
   code (transformFile exampleHost docComment (Some pagePath)) = docComment"
proof -
  have skip: "\<not> isSkippableFile (Some pagePath)"
    by code_simp
  have marker: "includesStr docComment ''async function server_''"
    by code_simp
  have none: "findServerFunctions astComment = []"
    by code_simp
  have "code (transformFile exampleHost docComment (Some pagePath)) = docComment"
    by (rule transformFile_without_tagged_functions) (simp add: parse_docComment none)
  with parse_docComment skip marker none show ?thesis by simp
qed

text \<open>
  C7, on \<open>docStale\<close>, which imports \<open>db\<close>, declares \<open>server_a\<close> at 52 to 80 and then \<open>server_b\<close>,
  which uses \<open>db\<close>. Processing \<open>server_b\<close> removes its definition and then the import, which
  leaves 47 characters; the span 52 to 80 of \<open>server_a\<close>, from the tree of the original
  text, then lies past the end of the buffer and removes nothing. The text returned still
  declares \<open>server_a\<close>, and a second transform of it removes that definition: the result
  of the transform is not left unchanged by the transform.
\<close>

theorem second_transform_changes_output:
  "map sf_name (sortDescending sf_start (findServerFunctions astStale)) =
     [''server_b'', ''server_a''] \<and>
   removeSpan docStale 81 120 = docStaleAfterB \<and>
   parse exampleHost docStaleAfterB = Inr astStaleAfterB \<and>
   length (cleanupUnusedImports exampleHost docStaleAfterB) = 47 \<and>
   code (transformFile exampleHost docStale (Some pagePath)) = docStaleOnce \<and>
   parse exampleHost docStaleOnce = Inr astStaleOnce \<and>
   map sf_name (findServerFunctions astStaleOnce) = [''server_a''] \<and>
   code (transformFile exampleHost docStaleOnce (Some pagePath)) = docStaleTwice \<and>
   docStaleTwice \<noteq> docStaleOnce"
  by code_simp

section \<open>Which declarations are tagged\<close>

text \<open>
  C5, as the code has it. A function is found exactly when it is a function declaration met
  anywhere in the walk of the script's program (at any depth, not only at the top level),
  is asynchronous and has a name starting with \<open>server_\<close>; the markup plays no part.
\<close>

theorem tagged_function_criterion:
  "(f \<in> set (findServerFunctions ast) \<longleftrightarrow>
      (\<exists>scr n i nm.
          instance ast = Some scr \<and> n \<in> set (walk (sc_content scr)) \<and>
          ntype n = ''FunctionDeclaration'' \<and> nasync n \<and>
          nodeAt n ''id'' = Some i \<and> nname i = Some nm \<and> startsWith nm ''server_'' \<and>
          f = \<lparr>sf_name = nm, sf_node = n, sf_start = nstart n, sf_end = nend n\<rparr>)) \<and>
   findServerFunctions (ast\<lparr>fragment := frag\<rparr>) = findServerFunctions ast"
proof (intro conjI iffI)
  assume "f \<in> set (findServerFunctions ast)"
  then obtain scr n where scr: "instance ast = Some scr"
    and n: "n \<in> set (walk (sc_content scr))" "isServerFunction n" and f: "f = serverFunctionOf n"
    by (cases "instance ast") (auto simp: findServerFunctions_def)
  from n(2) obtain i nm
    where id: "nodeAt n ''id'' = Some i" "nname i = Some nm" "startsWith nm ''server_''"
      and ty: "ntype n = ''FunctionDeclaration''" "nasync n"
    by (auto simp: isServerFunction_iff)
  with scr n f serverFunctionOf_named[OF id(1,2)]
  show "\<exists>scr n i nm.
          instance ast = Some scr \<and> n \<in> set (walk (sc_content scr)) \<and>
          ntype n = ''FunctionDeclaration'' \<and> nasync n \<and>
          nodeAt n ''id'' = Some i \<and> nname i = Some nm \<and> startsWith nm ''server_'' \<and>
          f = \<lparr>sf_name = nm, sf_node = n, sf_start = nstart n, sf_end = nend n\<rparr>"
    by blast
next
  assume "\<exists>scr n i nm.
          instance ast = Some scr \<and> n \<in> set (walk (sc_content scr)) \<and>
          ntype n = ''FunctionDeclaration'' \<and> nasync n \<and>
          nodeAt n ''id'' = Some i \<and> nname i = Some nm \<and> startsWith nm ''server_'' \<and>
          f = \<lparr>sf_name = nm, sf_node = n, sf_start = nstart n, sf_end = nend n\<rparr>"
  then obtain scr n i nm where scr: "instance ast = Some scr"
    and n: "n \<in> set (walk (sc_content scr))" "ntype n = ''FunctionDeclaration''" "nasync n"
    and id: "nodeAt n ''id'' = Some i" "nname i = Some nm" "startsWith nm ''server_''"
    and f: "f = \<lparr>sf_name = nm, sf_node = n, sf_start = nstart n, sf_end = nend n\<rparr>"
    by blast
  have "isServerFunction n" using n id by (auto simp: isServerFunction_iff)
  moreover have "f = serverFunctionOf n" using f serverFunctionOf_named[OF id(1,2)] by simp
  ultimately show "f \<in> set (findServerFunctions ast)"
    using scr n(1) by (simp add: findServerFunctions_def)
next
  show "findServerFunctions (ast\<lparr>fragment := frag\<rparr>) = findServerFunctions ast"
    by (simp add: findServerFunctions_def)
qed

text \<open>In \<open>docNested\<close> the function found is declared inside the body of \<open>outer\<close>.\<close>

theorem nested_function_counterexample:
  "\<not> (\<forall>f \<in> set (findServerFunctions astNested). topLevel astNested (sf_node f))"
  by code_simp

theorem tagged_function_criterion_witness:
  "map sf_name (findServerFunctions astNested) = [''server_inner''] \<and>
   (\<exists>scr n i nm.
       instance astNested = Some scr \<and> n \<in> set (walk (sc_content scr)) \<and>
       ntype n = ''FunctionDeclaration'' \<and> nasync n \<and>
       nodeAt n ''id'' = Some i \<and> nname i = Some nm \<and> startsWith nm ''server_'' \<and>
       hd (findServerFunctions astNested) =
         \<lparr>sf_name = nm, sf_node = n, sf_start = nstart n, sf_end = nend n\<rparr>)"
proof -
  have names: "map sf_name (findServerFunctions astNested) = [''server_inner'']"
    by code_simp
  then have "hd (findServerFunctions astNested) \<in> set (findServerFunctions astNested)"
    by (cases "findServerFunctions astNested") auto
  with tagged_function_criterion[of "hd (findServerFunctions astNested)" astNested None] names
  show ?thesis by blast
qed

section \<open>The callbacks and the file system\<close>

text \<open>
  C10. Every callback the preprocessor returns (markup, style or script) gives back the
  file system it was given: after the startup sweep, no sequence of per-document
  transforms changes an entry or adds a call to the log of file-system calls.
\<close>

theorem hooks_leave_file_system:
  "snd (fst (serverFunctions h fs) k ctx fs') = fs' \<and>
   foldl (\<lambda>s call. snd (fst (serverFunctions h fs) (fst call) (snd call) s))
     (snd (serverFunctions h fs)) calls = snd (serverFunctions h fs) \<and>
   snd (serverFunctions h fs) = scanAndCreateEndpoints h (cleanupEndpoints h fs)"
proof (intro conjI)
  show one: "snd (fst (serverFunctions h fs) k ctx fs') = fs'" for k ctx fs'
    by (cases k) (simp_all add: serverFunctions_def runHook_def)
  show "foldl (\<lambda>s call. snd (fst (serverFunctions h fs) (fst call) (snd call) s))
          (snd (serverFunctions h fs)) calls = snd (serverFunctions h fs)"
    by (induction calls) (simp_all add: one)
  show "snd (serverFunctions h fs) = scanAndCreateEndpoints h (cleanupEndpoints h fs)"
    by (simp add: serverFunctions_def startup_def)
qed

section \<open>Failing parses\<close>

text \<open>
  C2, as the code has it. When the first parse of the document fails, the transform returns
  the text it was given. When the parse made for import pruning fails, the pruning step
  returns the text it was given, which already has the calls rewritten and the definition
  removed: the edits are kept and only the pruning is skipped. So for a document with one
  tagged function whose edited text does not parse, the transform returns the edited text.
\<close>

theorem parse_failure_handling:
  "(parse h content = Inl err \<longrightarrow> code (transformFile h content filename) = content) \<and>
   (parse h edited = Inl err \<longrightarrow> cleanupUnusedImports h edited = edited) \<and>
   (\<not> isSkippableFile filename \<and> includesStr content' ''async function server_'' \<and>
    parse h content' = Inr ast \<and> findServerFunctions ast = [serverFunc] \<and>
    parse h (removeSpan
               (rewriteCalls ast content' serverFunc
                  (pr_routePath (generatePaths h (sf_name serverFunc) filename)))
               (sf_start serverFunc) (sf_end serverFunc)) = Inl err \<longrightarrow>
      code (transformFile h content' filename) =
        removeSpan
          (rewriteCalls ast content' serverFunc
             (pr_routePath (generatePaths h (sf_name serverFunc) filename)))
          (sf_start serverFunc) (sf_end serverFunc))"
proof (intro conjI impI)
  assume "parse h content = Inl err"
  then show "code (transformFile h content filename) = content"
    by (simp add: transformFile_def)
next
  assume "parse h edited = Inl err"
  then show "cleanupUnusedImports h edited = edited"
    by (simp add: cleanupUnusedImports_def)
next
  let ?rp = "pr_routePath (generatePaths h (sf_name serverFunc) filename)"
  let ?edited = "removeSpan (rewriteCalls ast content' serverFunc ?rp)
                   (sf_start serverFunc) (sf_end serverFunc)"
  assume a: "\<not> isSkippableFile filename \<and> includesStr content' ''async function server_'' \<and>
    parse h content' = Inr ast \<and> findServerFunctions ast = [serverFunc] \<and>
    parse h ?edited = Inl err"
  then have "code (transformFile h content' filename) =
               transformServerFunction h ast content' serverFunc ?rp"
    by (simp add: transformFile_def process_def sortDescending_def Let_def)
  also have "\<dots> = cleanupUnusedImports h ?edited"
    by (simp add: transformServerFunction_def Let_def)
  also have "\<dots> = ?edited"
    using a by (simp add: cleanupUnusedImports_def)
  finally show "code (transformFile h content' filename) = ?edited" .
qed

text \<open>
  In \<open>docComma\<close> the call \<open>server_f([1,2])\<close> is rewritten with the payload
  \<open>{"0": [1,"1": 2]}\<close>; the edited text does not parse, and it is what the transform returns.
\<close>

theorem reparse_failure_counterexample:
  "parse exampleHost docComma = Inr astComma \<and>
   removeSpan
     (rewriteCalls astComma docComma (hd (findServerFunctions astComma)) ''server_f_rRjpf2bO'')
     9 48 = docCommaEdited \<and>
   parse exampleHost docCommaEdited = Inl ParseError \<and>
   code (transformFile exampleHost docComma (Some pagePath)) = docCommaEdited \<and>
   docCommaEdited \<noteq> docComma"
  by code_simp

theorem parse_failure_handling_witness:
  "parse exampleHost ''async function server_'' = Inl ParseError \<and>
   code (transformFile exampleHost ''async function server_'' (Some pagePath)) =
     ''async function server_'' \<and>
   parse exampleHost docComma = Inr astComma \<and>
   parse exampleHost docCommaEdited = Inl ParseError \<and>
   cleanupUnusedImports exampleHost docCommaEdited = docCommaEdited \<and>
   code (transformFile exampleHost docComma (Some pagePath)) = docCommaEdited"
proof -
  let ?f = "hd (findServerFunctions astComma)"
  have 1: "parse exampleHost ''async function server_'' = Inl ParseError"
    by code_simp
  have 2: "parse exampleHost docCommaEdited = Inl ParseError"
    by code_simp
  have 3: "removeSpan
      (rewriteCalls astComma docComma ?f
         (pr_routePath (generatePaths exampleHost (sf_name ?f) (Some pagePath))))
      (sf_start ?f) (sf_end ?f) = docCommaEdited"
    by code_simp
  have 4: "\<not> isSkippableFile (Some pagePath)" "includesStr docComma ''async function server_''"
    "parse exampleHost docComma = Inr astComma" "findServerFunctions astComma = [?f]"
    by code_simp+
  from parse_failure_handling[where h = exampleHost and content = "''async function server_''"
      and err = ParseError and filename = "Some pagePath" and edited = docCommaEdited
      and ast = astComma and content' = docComma and serverFunc = ?f]
    1 2 3 4
  show ?thesis by simp
qed

section \<open>Stable ids\<close>

lemma routePath_eq:
  "pr_routePath (generatePaths h n file) =
     n @ ''_'' @
     slice (sha256Base64url h
              ((if truthy file then replaceBackslashes (relativeToSrc h (the file))
                else ''unknown'') @ '':'' @ n)) 0 8"
  by (simp add: generatePaths_def Let_def)

lemma length_slice_prefix: "n \<le> length s \<Longrightarrow> length (slice s 0 (int n)) = n"
  by (simp add: slice_def clampIndex_def Let_def)

text \<open>Eight characters cannot tell all strings apart, whatever the digest.\<close>

lemma truncated_digest_not_injective: "\<not> inj (\<lambda>str. slice (sha256Base64url h str) 0 8)"
proof
  assume "inj (\<lambda>str. slice (sha256Base64url h str) 0 8)"
  moreover have "range (\<lambda>str. slice (sha256Base64url h str) 0 8)
                   \<subseteq> {s. set s \<subseteq> UNIV \<and> length s \<le> 8}"
    by (auto simp: slice_def clampIndex_def Let_def)
  moreover have "finite {s::string. set s \<subseteq> UNIV \<and> length s \<le> 8}"
    by (rule finite_lists_length_le) simp
  ultimately have "finite (UNIV :: string set)"
    by (meson finite_imageD finite_subset)
  then show False using infinite_UNIV_listI by blast
qed

text \<open>
  C6, as the code has it. The paths generated depend on the file only through its relative
  path with backslashes turned into slashes, and on the function name: equal pairs give
  equal paths. Two different function names never share a route path (the digest has at
  least 8 characters). For one name and two files, the route paths are equal exactly when
  the first 8 characters of the two digests are equal.
\<close>

theorem stable_id_properties:
  "(f1 \<noteq> [] \<and> f2 \<noteq> [] \<and>
    replaceBackslashes (relativeToSrc h f1) = replaceBackslashes (relativeToSrc h f2) \<longrightarrow>
      generatePaths h n (Some f1) = generatePaths h n (Some f2)) \<and>
   ((\<forall>str. 8 \<le> length (sha256Base64url h str)) \<and> n1 \<noteq> n2 \<longrightarrow>
      pr_routePath (generatePaths h n1 file1) \<noteq> pr_routePath (generatePaths h n2 file2)) \<and>
   (f1 \<noteq> [] \<and> f2 \<noteq> [] \<longrightarrow>
      (pr_routePath (generatePaths h n (Some f1)) = pr_routePath (generatePaths h n (Some f2)) \<longleftrightarrow>
       slice (sha256Base64url h (replaceBackslashes (relativeToSrc h f1) @ '':'' @ n)) 0 8 =
       slice (sha256Base64url h (replaceBackslashes (relativeToSrc h f2) @ '':'' @ n)) 0 8))"
proof (intro conjI impI)
  assume "f1 \<noteq> [] \<and> f2 \<noteq> [] \<and>
    replaceBackslashes (relativeToSrc h f1) = replaceBackslashes (relativeToSrc h f2)"
  then show "generatePaths h n (Some f1) = generatePaths h n (Some f2)"
    by (simp add: generatePaths_def truthy_def Let_def)
next
  assume a: "(\<forall>str. 8 \<le> length (sha256Base64url h str)) \<and> n1 \<noteq> n2"
  show "pr_routePath (generatePaths h n1 file1) \<noteq> pr_routePath (generatePaths h n2 file2)"
  proof
    assume eq: "pr_routePath (generatePaths h n1 file1) = pr_routePath (generatePaths h n2 file2)"
    obtain x1 x2
      where x: "pr_routePath (generatePaths h n1 file1) =
                  n1 @ ''_'' @ slice (sha256Base64url h x1) 0 8"
               "pr_routePath (generatePaths h n2 file2) =
                  n2 @ ''_'' @ slice (sha256Base64url h x2) 0 8"
      by (simp add: routePath_eq)
    have len: "length (slice (sha256Base64url h x1) 0 8) = 8"
      "length (slice (sha256Base64url h x2) 0 8) = 8"
      using a length_slice_prefix[of 8 "sha256Base64url h x1"]
        length_slice_prefix[of 8 "sha256Base64url h x2"]
      by simp_all
    from eq x
    have "n1 @ (''_'' @ slice (sha256Base64url h x1) 0 8) =
          n2 @ (''_'' @ slice (sha256Base64url h x2) 0 8)"
      by simp
    moreover from this len have "length n1 = length n2"
      by (metis add_right_cancel length_Cons length_append)
    ultimately have "n1 = n2"
      by simp
    with a show False by simp
  qed
next
  assume "f1 \<noteq> [] \<and> f2 \<noteq> []"
  then show "pr_routePath (generatePaths h n (Some f1)) = pr_routePath (generatePaths h n (Some f2)) \<longleftrightarrow>
       slice (sha256Base64url h (replaceBackslashes (relativeToSrc h f1) @ '':'' @ n)) 0 8 =
       slice (sha256Base64url h (replaceBackslashes (relativeToSrc h f2) @ '':'' @ n)) 0 8"
    by (simp add: routePath_eq truthy_def)
qed

text \<open>
  On POSIX a backslash is an ordinary character of a file name: the files \<open>a\b.svelte\<close> and
  \<open>a/b.svelte\<close> below \<open>src\<close> have different relative paths and the same route path.
\<close>

theorem backslash_path_counterexample:
  "''/app/src/a'' @ [CHR 0x5C] @ ''b.svelte'' \<noteq> ''/app/src/a/b.svelte'' \<and>
   relativeToSrc exampleHost (''/app/src/a'' @ [CHR 0x5C] @ ''b.svelte'') =
     ''a'' @ [CHR 0x5C] @ ''b.svelte'' \<and>
   relativeToSrc exampleHost ''/app/src/a/b.svelte'' = ''a/b.svelte'' \<and>
   pr_routePath
     (generatePaths exampleHost ''server_f'' (Some (''/app/src/a'' @ [CHR 0x5C] @ ''b.svelte''))) =
     ''server_f_cNPIl-pS'' \<and>
   pr_routePath (generatePaths exampleHost ''server_f'' (Some ''/app/src/a/b.svelte'')) =
     ''server_f_cNPIl-pS''"
  by code_simp

theorem stable_id_properties_witness:
  "generatePaths exampleHost ''server_f'' (Some (''/app/src/a'' @ [CHR 0x5C] @ ''b.svelte'')) =
   generatePaths exampleHost ''server_f'' (Some ''/app/src/a/b.svelte'') \<and>
   pr_routePath (generatePaths exampleHost ''server_a'' (Some pagePath)) \<noteq>
   pr_routePath (generatePaths exampleHost ''server_b'' (Some pagePath)) \<and>
   pr_routePath (generatePaths exampleHost ''server_a'' (Some pagePath)) \<noteq>
   pr_routePath (generatePaths exampleHost ''server_a'' (Some ''/app/src/a/b.svelte''))"
proof -
  have len: "\<forall>str. 8 \<le> length (sha256Base64url exampleHost str)"
    by (simp add: exampleHost_def exampleDigest_def)
  have same: "replaceBackslashes (relativeToSrc exampleHost (''/app/src/a'' @ [CHR 0x5C] @ ''b.svelte'')) =
              replaceBackslashes (relativeToSrc exampleHost ''/app/src/a/b.svelte'')"
    by code_simp
  have digests:
    "slice (sha256Base64url exampleHost
              (replaceBackslashes (relativeToSrc exampleHost pagePath) @ '':'' @ ''server_a'')) 0 8 \<noteq>
     slice (sha256Base64url exampleHost
              (replaceBackslashes (relativeToSrc exampleHost ''/app/src/a/b.svelte'') @ '':'' @
               ''server_a'')) 0 8"
    by code_simp
  have ne: "pagePath \<noteq> []" "''/app/src/a/b.svelte'' \<noteq> []"
    "''/app/src/a'' @ [CHR 0x5C] @ ''b.svelte'' \<noteq> []" "''server_a'' \<noteq> ''server_b''"
    by (simp_all add: pagePath_def)
  from stable_id_properties[where h = exampleHost
      and ?f1.0 = "''/app/src/a'' @ [CHR 0x5C] @ ''b.svelte''" and ?f2.0 = "''/app/src/a/b.svelte''"
      and n = "''server_f''"] same ne
  have 1: "generatePaths exampleHost ''server_f'' (Some (''/app/src/a'' @ [CHR 0x5C] @ ''b.svelte'')) =
           generatePaths exampleHost ''server_f'' (Some ''/app/src/a/b.svelte'')"
    by blast
  from stable_id_properties[where h = exampleHost and ?n1.0 = "''server_a''" and ?n2.0 = "''server_b''"
      and ?file1.0 = "Some pagePath" and ?file2.0 = "Some pagePath"] len ne
  have 2: "pr_routePath (generatePaths exampleHost ''server_a'' (Some pagePath)) \<noteq>
           pr_routePath (generatePaths exampleHost ''server_b'' (Some pagePath))"
    by blast
  from stable_id_properties[where h = exampleHost and ?f1.0 = pagePath
      and ?f2.0 = "''/app/src/a/b.svelte''" and n = "''server_a''"] digests ne
  have 3: "pr_routePath (generatePaths exampleHost ''server_a'' (Some pagePath)) \<noteq>
           pr_routePath (generatePaths exampleHost ''server_a'' (Some ''/app/src/a/b.svelte''))"
    by blast
  from 1 2 3 show ?thesis by simp
qed

section \<open>Import pruning\<close>

lemma allSpecifiersUnused_bound:
  "list_all (\<lambda>s. nodeAt s ''local'' \<noteq> None) ss \<Longrightarrow>
   allSpecifiersUnused used ss = Inr (list_all (\<lambda>s. localName s \<notin> used) ss)"
  by (induction ss) (auto simp: localName_def split: option.splits)

lemma unusedAmong_bound:
  "specifiersBound ns \<Longrightarrow>
   unusedAmong used ns = Inr (map importNodeOf (filter (unusedImport used) ns))"
  by (induction ns) (auto simp: specifiersBound_def unusedImport_def allSpecifiersUnused_bound)

text \<open>
  The identifiers \<open>collectUsedIdentifiers\<close> collects. In a subtree without import
  declarations they are the identifiers of the subtree; in a program whose import
  declarations are among its statements, they are the identifiers of the other statements.
\<close>

lemma usedIn_without_imports:
  "list_all (\<lambda>m. ntype m \<noteq> ''ImportDeclaration'') (walk t) \<Longrightarrow>
   (case parent of None \<Rightarrow> True | Some p \<Rightarrow> ntype p \<noteq> ''ImportDeclaration'') \<Longrightarrow>
   usedIn parent t = map nname (filter (\<lambda>m. ntype m = ''Identifier'') (walk t))"
proof (induction t arbitrary: parent)
  case (Node ty s e a nm fs)
  have ty: "ty \<noteq> ''ImportDeclaration''" using Node.prems(1) by simp
  have inner: "usedIn (Some (Node ty s e a nm fs)) c = map nname (filter (\<lambda>m. ntype m = ''Identifier'') (walk c))"
    if "kv \<in> set fs" "c \<in> set (snd kv)" for kv c
  proof -
    have "list_all (\<lambda>m. ntype m \<noteq> ''ImportDeclaration'') (walk c)"
      using Node.prems(1) that by (auto simp: list_all_iff)
    moreover have "c \<in> set (snd kv)" "snd kv \<in> Basic_BNFs.snds kv" using that by (auto simp: snds.simps)
    ultimately show ?thesis
      using Node.IH[of kv "snd kv" c "Some (Node ty s e a nm fs)"] that ty by (cases kv) auto
  qed
  have "concat (map (\<lambda>kv. concat (map (usedIn (Some (Node ty s e a nm fs))) (snd kv))) fs) =
        concat (map (\<lambda>kv. concat (map (\<lambda>c. map nname (filter (\<lambda>m. ntype m = ''Identifier'') (walk c))) (snd kv))) fs)"
    by (intro arg_cong[where f = concat] map_cong refl) (simp add: inner cong: map_cong)
  also have "\<dots> = map nname (filter (\<lambda>m. ntype m = ''Identifier'') (concat (map (\<lambda>kv. concat (map walk (snd kv))) fs)))"
    by (simp add: map_concat filter_concat comp_def)
  finally show ?case
    using ty Node.prems(2) by (auto split: option.splits)
qed

lemma concat_map_if: "concat (map (\<lambda>c. if P c then f c else []) xs) = concat (map f (filter P xs))"
  by (induction xs) simp_all

lemma concat_fields: "concat (map (\<lambda>kv. concat (map g (snd kv))) fs) = concat (map g (concat (map snd fs)))"
  by (induction fs) simp_all

lemma usedIn_import: "ntype c = ''ImportDeclaration'' \<Longrightarrow> usedIn parent c = []"
  by (cases c) simp

lemma usedIn_program:
  assumes "ntype prog \<noteq> ''ImportDeclaration''" and "ntype prog \<noteq> ''Identifier''"
    and "list_all (\<lambda>c. ntype c \<noteq> ''ImportDeclaration'' \<longrightarrow>
                    list_all (\<lambda>m. ntype m \<noteq> ''ImportDeclaration'') (walk c)) (children prog)"
  shows "usedIn None prog =
           concat (map (\<lambda>c. map nname (filter (\<lambda>m. ntype m = ''Identifier'') (walk c)))
                     (filter (\<lambda>c. ntype c \<noteq> ''ImportDeclaration'') (children prog)))"
proof -
  obtain ty s e a nm fs where prog: "prog = Node ty s e a nm fs" by (cases prog)
  have each: "usedIn (Some prog) c =
          (if ntype c \<noteq> ''ImportDeclaration''
           then map nname (filter (\<lambda>m. ntype m = ''Identifier'') (walk c)) else [])"
    if "c \<in> set (children prog)" for c
    using that assms(1,3) by (auto simp: usedIn_import usedIn_without_imports list_all_iff)
  have "usedIn None prog = concat (map (usedIn (Some prog)) (children prog))"
    using assms(1,2) by (simp add: prog children_def concat_fields)
  also have "\<dots> = concat (map (\<lambda>c. if ntype c \<noteq> ''ImportDeclaration''
           then map nname (filter (\<lambda>m. ntype m = ''Identifier'') (walk c)) else []) (children prog))"
    by (intro arg_cong[where f = concat] map_cong refl) (simp add: each)
  also have "\<dots> = concat (map (\<lambda>c. map nname (filter (\<lambda>m. ntype m = ''Identifier'') (walk c)))
                     (filter (\<lambda>c. ntype c \<noteq> ''ImportDeclaration'') (children prog)))"
    by (rule concat_map_if)
  finally show ?thesis .
qed

text \<open>
  C4, as the code has it. When the edited text parses, the spans removed are those of the
  import declarations of the script none of whose local names is an identifier of the
  script outside the import declarations; the markup is not looked at. Every other import
  declaration is left out of the removal, and when there is none to remove the text is
  returned as it is.
\<close>

theorem unused_imports_removed:
  assumes "parse h content = Inr ast" and "instance ast = Some scr"
    and "specifiersBound (walk (sc_content scr))"
  shows "cleanupUnusedImports h content =
           foldl (\<lambda>c importNode. removeSpan c (in_start importNode) (in_end importNode)) content
             (sortDescending in_start
                (map importNodeOf
                   (filter (unusedImport (set (usedIn None (sc_content scr))))
                      (walk (sc_content scr))))) \<and>
         (list_all (\<lambda>n. \<not> unusedImport (set (usedIn None (sc_content scr))) n)
             (walk (sc_content scr)) \<longrightarrow>
          cleanupUnusedImports h content = content)"
proof -
  let ?used = "set (usedIn None (sc_content scr))"
  have found: "findUnusedImports ast (collectUsedIdentifiers ast) =
          Inr (map importNodeOf (filter (unusedImport ?used) (walk (sc_content scr))))"
    using assms(2,3) by (simp add: findUnusedImports_def collectUsedIdentifiers_def unusedAmong_bound)
  then have main: "cleanupUnusedImports h content =
           foldl (\<lambda>c importNode. removeSpan c (in_start importNode) (in_end importNode)) content
             (sortDescending in_start
                (map importNodeOf (filter (unusedImport ?used) (walk (sc_content scr)))))"
    using assms(1) by (simp add: cleanupUnusedImports_def)
  moreover have "filter (unusedImport ?used) (walk (sc_content scr)) = []"
    if "list_all (\<lambda>n. \<not> unusedImport ?used n) (walk (sc_content scr))"
    using that by (simp add: filter_empty_conv list_all_iff)
  ultimately show ?thesis
    by (auto simp: sortDescending_def)
qed

text \<open>
  In \<open>docMarkupImport\<close> the import \<open>fmt\<close> is called in the markup only. Once the tagged
  function is removed, the import is removed too, and the call in the markup stays.
\<close>

theorem markup_import_counterexample:
  "removeSpan docMarkupImport 38 78 = docMarkupImportAfter \<and>
   parse exampleHost docMarkupImportAfter = Inr astMarkupImportAfter \<and>
   findFunctionCalls astMarkupImportAfter ''fmt'' \<noteq> [] \<and>
   code (transformFile exampleHost docMarkupImport (Some pagePath)) =
     ''<script>\<newline></script>\<newline>{fmt(1)}''"
  by code_simp

theorem unused_imports_removed_witness:
  "parse exampleHost docImportsAfter = Inr astImportsAfter \<and>
   map (\<lambda>n. slice docImportsAfter (nstart n) (nend n))
     (filter (unusedImport (collectUsedIdentifiers astImportsAfter))
        (walk (sc_content (the (instance astImportsAfter))))) = [''import { db } from './db';''] \<and>
   cleanupUnusedImports exampleHost docImportsAfter =
     ''<script>\<newline>'' @
     ''import { log } from './log';\<newline>'' @
     ''log(1);\<newline>'' @
     ''</script>''"
proof -
  have 1: "parse exampleHost docImportsAfter = Inr astImportsAfter"
    by code_simp
  have 2: "instance astImportsAfter = Some (the (instance astImportsAfter))"
    by code_simp
  have 3: "specifiersBound (walk (sc_content (the (instance astImportsAfter))))"
    by code_simp
  have 4: "map (\<lambda>n. slice docImportsAfter (nstart n) (nend n))
     (filter (unusedImport (collectUsedIdentifiers astImportsAfter))
        (walk (sc_content (the (instance astImportsAfter))))) = [''import { db } from './db';'']"
    by code_simp
  have 5: "foldl (\<lambda>c importNode. removeSpan c (in_start importNode) (in_end importNode))
             docImportsAfter
             (sortDescending in_start
                (map importNodeOf
                   (filter (unusedImport (set (usedIn None (sc_content (the (instance astImportsAfter))))))
                      (walk (sc_content (the (instance astImportsAfter))))))) =
     ''<script>\<newline>'' @
     ''import { log } from './log';\<newline>'' @
     ''log(1);\<newline>'' @
     ''</script>''"
    by code_simp
  from unused_imports_removed[OF 1 2 3] 1 4 5 show ?thesis by simp
qed

section \<open>Writing endpoint files\<close>

lemma mkdirSync_made:
  assumes "mkdirSync fs d = Inr fs1" and "a \<in> set (ancestors d)"
  shows "map_of (entries fs1) a = Some Directory"
proof -
  from assms(1)
  have noFile: "\<not> list_ex (\<lambda>a. case map_of (entries fs) a of Some (File text) \<Rightarrow> True | _ \<Rightarrow> False)
                    (ancestors d)"
    and fs1: "entries fs1 =
                entries fs @
                map (\<lambda>a. (a, Directory)) (filter (\<lambda>a. map_of (entries fs) a = None) (ancestors d))"
    by (auto simp: mkdirSync_def split: if_splits)
  show ?thesis
  proof (cases "map_of (entries fs) a")
    case None
    then have "a \<in> set (filter (\<lambda>a. map_of (entries fs) a = None) (ancestors d))"
      using assms(2) by simp
    then have "map_of (map (\<lambda>a. (a, Directory))
                 (filter (\<lambda>a. map_of (entries fs) a = None) (ancestors d))) a = Some Directory"
      by (simp add: map_of_map_restrict restrict_map_def)
    with None show ?thesis by (simp add: fs1 map_add_def)
  next
    case (Some e)
    with noFile assms(2) have "e = Directory"
      by (cases e) (auto simp: list_ex_iff)
    with Some show ?thesis by (simp add: fs1 map_add_def)
  qed
qed

lemma mkdirSync_keeps:
  assumes "mkdirSync fs d = Inr fs1"
  shows "oplog fs1 = oplog fs @ [MkdirSync d]"
    and "map_of (entries fs) p = Some e \<Longrightarrow> map_of (entries fs1) p = Some e"
  using assms by (auto simp: mkdirSync_def map_add_def split: if_splits)

lemma mkdirSync_again:
  assumes "list_all (\<lambda>a. map_of (entries fs) a = Some Directory) (ancestors d)"
  shows "mkdirSync fs d = Inr (fs\<lparr>oplog := oplog fs @ [MkdirSync d]\<rparr>)"
proof -
  have "\<not> list_ex (\<lambda>a. case map_of (entries fs) a of Some (File text) \<Rightarrow> True | _ \<Rightarrow> False)
           (ancestors d)"
    using assms by (auto simp: list_ex_iff list_all_iff)
  moreover have "filter (\<lambda>a. map_of (entries fs) a = None) (ancestors d) = []"
    using assms by (auto simp: filter_empty_conv list_all_iff)
  ultimately show ?thesis by (simp add: mkdirSync_def)
qed

lemma writesOf_append: "writesOf (xs @ ys) = writesOf xs @ writesOf ys"
  by (induction xs rule: writesOf.induct) simp_all

lemma createEndpoint_settled:
  assumes "extractFunctionDetails h text f = Inr details"
    and "settled fs p
           (generateApiContent (fd_functionDefinition details) (sf_name f) (fd_imports details))"
  shows "entries (createEndpoint h fs p text f) = entries fs \<and>
         writesOf (oplog (createEndpoint h fs p text f)) = writesOf (oplog fs)"
proof -
  let ?fs1 = "fs\<lparr>oplog := oplog fs @ [MkdirSync (dirname p)]\<rparr>"
  have mk: "mkdirSync fs (dirname p) = Inr ?fs1"
    using assms(2) by (intro mkdirSync_again) (simp add: settled_def)
  have "createEndpoint h fs p text f = ?fs1"
    using assms(2) mk
    by (auto simp: createEndpoint_def assms(1) Let_def settled_def existsSync_def readFileSync_def)
  then show ?thesis by (simp add: writesOf_append)
qed

lemma createEndpoint_settles:
  assumes "extractFunctionDetails h text f = Inr details"
    and "mkdirSync fs (dirname p) = Inr fs1"
  shows "settled (createEndpoint h fs p text f) p
           (generateApiContent (fd_functionDefinition details) (sf_name f) (fd_imports details))"
proof -
  let ?c = "generateApiContent (fd_functionDefinition details) (sf_name f) (fd_imports details)"
  have anc: "\<forall>a \<in> set (ancestors (dirname p)). map_of (entries fs1) a = Some Directory"
    using mkdirSync_made[OF assms(2)] by blast
  let ?fs2 = "fs1\<lparr>entries := AList.update p (File ?c) (entries fs1),
                  oplog := oplog fs1 @ [WriteFileSync p ?c]\<rparr>"
  have written: "settled ?fs2 p ?c" if "map_of (entries fs1) p \<noteq> Some Directory"
    using that anc by (auto simp: settled_def update_conv' list_all_iff)
  show ?thesis
  proof (cases "map_of (entries fs1) p")
    case None
    then have "createEndpoint h fs p text f = ?fs2"
      by (simp add: createEndpoint_def assms Let_def existsSync_def writeFileSync_def isDirectory_def)
    with written None show ?thesis by simp
  next
    case (Some e)
    show ?thesis
    proof (cases e)
      case Directory
      with Some have "createEndpoint h fs p text f = fs1"
        by (simp add: createEndpoint_def assms Let_def existsSync_def readFileSync_def)
      with Some Directory anc show ?thesis by (simp add: settled_def list_all_iff)
    next
      case (File old)
      show ?thesis
      proof (cases "old = ?c")
        case True
        with Some File have "createEndpoint h fs p text f = fs1"
          by (simp add: createEndpoint_def assms Let_def existsSync_def readFileSync_def)
        with Some File True anc show ?thesis by (simp add: settled_def list_all_iff)
      next
        case False
        with Some File have "createEndpoint h fs p text f = ?fs2"
          by (simp add: createEndpoint_def assms Let_def existsSync_def readFileSync_def
              writeFileSync_def isDirectory_def)
        with written Some File show ?thesis by simp
      qed
    qed
  qed
qed

text \<open>
  C8, as the code has it. \<open>createEndpoint\<close> writes nothing when the file at the target path
  already holds the rendered content, and calling it a second time with the same arguments
  writes nothing and leaves every entry as the first call left it. (The startup sweep is
  another matter: it removes the generated directories before it creates the endpoints.)
\<close>

theorem createEndpoint_idempotent:
  "(extractFunctionDetails h src f = Inr details \<and>
    readFileSync fs p =
      Inr (generateApiContent (fd_functionDefinition details) (sf_name f) (fd_imports details)) \<longrightarrow>
      writesOf (oplog (createEndpoint h fs p src f)) = writesOf (oplog fs)) \<and>
   entries (createEndpoint h (createEndpoint h fs p src f) p src f) =
     entries (createEndpoint h fs p src f) \<and>
   writesOf (oplog (createEndpoint h (createEndpoint h fs p src f) p src f)) =
     writesOf (oplog (createEndpoint h fs p src f))"
proof (intro conjI impI)
  assume a: "extractFunctionDetails h src f = Inr details \<and>
    readFileSync fs p =
      Inr (generateApiContent (fd_functionDefinition details) (sf_name f) (fd_imports details))"
  let ?c = "generateApiContent (fd_functionDefinition details) (sf_name f) (fd_imports details)"
  from a have isFile: "map_of (entries fs) p = Some (File ?c)"
    by (auto simp: readFileSync_def split: option.splits entry.splits)
  show "writesOf (oplog (createEndpoint h fs p src f)) = writesOf (oplog fs)"
  proof (cases "mkdirSync fs (dirname p)")
    case (Inl err)
    with a show ?thesis by (simp add: createEndpoint_def Let_def)
  next
    case (Inr fs1)
    from mkdirSync_keeps(2)[OF Inr isFile] have "map_of (entries fs1) p = Some (File ?c)" .
    with a Inr have "createEndpoint h fs p src f = fs1"
      by (simp add: createEndpoint_def Let_def existsSync_def readFileSync_def)
    with mkdirSync_keeps(1)[OF Inr] show ?thesis by (simp add: writesOf_append)
  qed
next
  show "entries (createEndpoint h (createEndpoint h fs p src f) p src f) =
          entries (createEndpoint h fs p src f)"
    and "writesOf (oplog (createEndpoint h (createEndpoint h fs p src f) p src f)) =
          writesOf (oplog (createEndpoint h fs p src f))"
  proof (atomize (full), cases "extractFunctionDetails h src f")
    case (Inl err)
    then show "entries (createEndpoint h (createEndpoint h fs p src f) p src f) =
          entries (createEndpoint h fs p src f) \<and>
       writesOf (oplog (createEndpoint h (createEndpoint h fs p src f) p src f)) =
          writesOf (oplog (createEndpoint h fs p src f))"
      by (simp add: createEndpoint_def)
  next
    case (Inr details)
    show "entries (createEndpoint h (createEndpoint h fs p src f) p src f) =
          entries (createEndpoint h fs p src f) \<and>
       writesOf (oplog (createEndpoint h (createEndpoint h fs p src f) p src f)) =
          writesOf (oplog (createEndpoint h fs p src f))"
    proof (cases "mkdirSync fs (dirname p)")
      case (Inl err)
      with Inr have "createEndpoint h fs p src f = fs"
        by (simp add: createEndpoint_def Let_def)
      then show ?thesis by simp
    next
      case mk: (Inr fs1)
      from createEndpoint_settled[OF Inr createEndpoint_settles[OF Inr mk]]
      show ?thesis .
    qed
  qed
qed

text \<open>
  The startup sweep run on \<open>exampleFs\<close> leaves the endpoint file of \<open>server_get\<close>. Run again
  on that file system, with the sources unchanged, it removes the endpoint's directory,
  creates it and writes the same file.
\<close>

theorem second_sweep_counterexample:
  "readFileSync (startup exampleHost exampleFs)
     ''/app/src/routes/api/server_get_2jw2AVrp/+server.ts'' =
     Inr (generateApiContent ''async function server_get() { return db }'' ''server_get''
            [''import { db } from './db';'']) \<and>
   oplog (startup exampleHost ((startup exampleHost exampleFs)\<lparr>oplog := []\<rparr>)) =
     [RmSync ''/app/src/routes/api/server_get_2jw2AVrp'',
      MkdirSync ''/app/src/routes/api/server_get_2jw2AVrp'',
      WriteFileSync ''/app/src/routes/api/server_get_2jw2AVrp/+server.ts''
        (generateApiContent ''async function server_get() { return db }'' ''server_get''
            [''import { db } from './db';''])]"
  by code_simp

theorem createEndpoint_idempotent_witness:
  "extractFunctionDetails exampleHost docImports (hd (findServerFunctions astImports)) =
     Inr \<lparr>fd_imports = [''import { db } from './db';''],
          fd_functionDefinition = ''async function server_get() { return db }''\<rparr> \<and>
   writesOf (oplog (createEndpoint exampleHost (startup exampleHost exampleFs)
       ''/app/src/routes/api/server_get_2jw2AVrp/+server.ts'' docImports
       (hd (findServerFunctions astImports)))) =
   writesOf (oplog (startup exampleHost exampleFs))"
proof -
  let ?f = "hd (findServerFunctions astImports)"
  let ?details = "\<lparr>fd_imports = [''import { db } from './db';''],
          fd_functionDefinition = ''async function server_get() { return db }''\<rparr>"
  have 1: "extractFunctionDetails exampleHost docImports ?f = Inr ?details"
    by code_simp
  have 2: "readFileSync (startup exampleHost exampleFs)
             ''/app/src/routes/api/server_get_2jw2AVrp/+server.ts'' =
           Inr (generateApiContent (fd_functionDefinition ?details) (sf_name ?f) (fd_imports ?details))"
    by code_simp
  from createEndpoint_idempotent[where h = exampleHost and src = docImports and f = ?f
      and details = ?details and fs = "startup exampleHost exampleFs"
      and p = "''/app/src/routes/api/server_get_2jw2AVrp/+server.ts''"] 1 2
  show ?thesis by blast
qed

section \<open>Rewriting the calls of one buffer\<close>

text \<open>
  What the descending order achieves: when the spans of the calls fit the buffer they are
  applied to, each call is replaced in place by its fetch expression, built from the
  argument text of the snapshot, and the text before the first call is untouched.
\<close>

lemma inOrder_mono: "inOrder b cs \<Longrightarrow> b \<le> b' \<Longrightarrow> inOrder b' cs"
  by (cases cs) auto

lemma slice_append_within:
  "0 \<le> a \<Longrightarrow> a \<le> int (length pre) \<Longrightarrow> 0 \<le> b \<Longrightarrow> b \<le> int (length pre) \<Longrightarrow>
   slice (pre @ suf) a b = slice pre a b"
  by (auto simp: slice_def clampIndex_def Let_def min_def)

lemma sliceFrom_append_within:
  "0 \<le> a \<Longrightarrow> a \<le> int (length pre) \<Longrightarrow> sliceFrom (pre @ suf) a = sliceFrom pre a @ suf"
  by (auto simp: sliceFrom_def clampIndex_def min_def)

lemma length_slice0: "0 \<le> a \<Longrightarrow> a \<le> int (length s) \<Longrightarrow> int (length (slice s 0 a)) = a"
  by (auto simp: slice_def clampIndex_def Let_def min_def)

lemma rewriteCall_append:
  assumes "0 \<le> fc_start c" "fc_start c \<le> sp_start (fc_arguments c)"
    "sp_start (fc_arguments c) \<le> sp_end (fc_arguments c)"
    "sp_end (fc_arguments c) \<le> fc_end c" "fc_end c \<le> int (length pre)"
  shows "rewriteCall rp (pre @ suf) c = rewriteCall rp pre c @ suf"
  using assms
  by (simp add: rewriteCall_def Let_def slice_append_within sliceFrom_append_within)

lemma length_rewriteCall:
  assumes "0 \<le> fc_start c" "fc_start c \<le> int (length pre)"
  shows "fc_start c \<le> int (length (rewriteCall rp pre c))"
  using assms length_slice0[of "fc_start c" pre]
  by (simp add: rewriteCall_def Let_def)

lemma rewrite_in_prefix:
  "inOrder (int (length pre)) cs \<Longrightarrow>
   foldl (rewriteCall rp) (pre @ suf) cs = foldl (rewriteCall rp) pre cs @ suf"
proof (induction cs arbitrary: pre)
  case Nil
  then show ?case by simp
next
  case (Cons c cs)
  then have c: "0 \<le> fc_start c" "fc_start c \<le> sp_start (fc_arguments c)"
    "sp_start (fc_arguments c) \<le> sp_end (fc_arguments c)"
    "sp_end (fc_arguments c) \<le> fc_end c" "fc_end c \<le> int (length pre)"
    and rest: "inOrder (fc_start c) cs"
    by simp_all
  have "inOrder (int (length (rewriteCall rp pre c))) cs"
    using rest c by (intro inOrder_mono[OF rest] length_rewriteCall) auto
  with Cons.IH[of "rewriteCall rp pre c"] rewriteCall_append[OF c]
  show ?case by simp
qed

lemma calls_rewritten_in_place:
  "inOrder (int (length content)) cs \<Longrightarrow> foldl (rewriteCall rp) content cs = spliced rp content cs"
proof (induction cs arbitrary: content)
  case Nil
  then show ?case by simp
next
  case (Cons c cs)
  then have c: "0 \<le> fc_start c" "fc_start c \<le> int (length content)" and rest: "inOrder (fc_start c) cs"
    by auto
  let ?pre = "slice content 0 (fc_start c)"
  let ?suf = "generateFetchCall rp (slice content (sp_start (fc_arguments c)) (sp_end (fc_arguments c))) @
              sliceFrom content (fc_end c)"
  have len: "int (length ?pre) = fc_start c"
    using c by (rule length_slice0)
  have "foldl (rewriteCall rp) content (c # cs) = foldl (rewriteCall rp) (?pre @ ?suf) cs"
    by (simp add: rewriteCall_def Let_def)
  also have "\<dots> = foldl (rewriteCall rp) ?pre cs @ ?suf"
    using rest by (intro rewrite_in_prefix) (simp add: len)
  also have "foldl (rewriteCall rp) ?pre cs = spliced rp ?pre cs"
    using rest by (intro Cons.IH) (simp add: len)
  finally show ?case by simp
qed

lemma spliced_prefix:
  "inOrder (int (length content)) cs \<Longrightarrow> list_all (\<lambda>c. int k \<le> fc_start c) cs \<Longrightarrow>
   k \<le> length content \<Longrightarrow> take k (spliced rp content cs) = take k content"
proof (induction cs arbitrary: content)
  case Nil
  then show ?case by simp
next
  case (Cons c cs)
  then have c: "0 \<le> fc_start c" "fc_start c \<le> int (length content)" "int k \<le> fc_start c"
    and rest: "inOrder (fc_start c) cs" "list_all (\<lambda>c. int k \<le> fc_start c) cs"
    by auto
  let ?pre = "slice content 0 (fc_start c)"
  have len: "int (length ?pre) = fc_start c"
    using c(1,2) by (rule length_slice0)
  have pre: "take k ?pre = take k content"
    using c by (auto simp: slice_def clampIndex_def Let_def min_def)
  have ih: "take k (spliced rp ?pre cs) = take k ?pre"
    using rest c len by (intro Cons.IH) auto
  have "k \<le> length (take k (spliced rp ?pre cs))"
    using c len by (simp add: ih pre)
  then have "k \<le> length (spliced rp ?pre cs)" by simp
  then show ?case by (simp add: ih pre)
qed

lemma rewriteCalls_in_place:
  assumes "inOrder (int (length content))
             (sortDescending fc_start (findFunctionCalls ast (sf_name serverFunc)))"
  shows "rewriteCalls ast content serverFunc routePath =
           spliced routePath content
             (sortDescending fc_start (findFunctionCalls ast (sf_name serverFunc)))"
  unfolding rewriteCalls_def using assms by (rule calls_rewritten_in_place)

text \<open>In \<open>docComma\<close>, a single snapshot with one call, the spans fit the buffer.\<close>

lemma rewriteCalls_docComma:
  "inOrder (int (length docComma)) (sortDescending fc_start (findFunctionCalls astComma ''server_f'')) \<and>
   rewriteCalls astComma docComma (hd (findServerFunctions astComma)) ''server_f_rRjpf2bO'' =
     slice docComma 0 49 @ generateFetchCall ''server_f_rRjpf2bO'' ''[1,2]'' @ sliceFrom docComma 64"
  by code_simp

lemma sortDescending_sorted: "sorted (map (\<lambda>x. - start x) (sortDescending start xs))"
  by (simp add: sortDescending_def)

lemma sortDescending_set: "set (sortDescending start xs) = set xs"
  by (simp add: sortDescending_def)

lemma process_order:
  "findServerFunctions ast \<noteq> [] \<Longrightarrow>
   process h filename ast content =
     foldl (\<lambda>c func. transformServerFunction h ast c func
                       (pr_routePath (generatePaths h (sf_name func) filename)))
       content (sortDescending sf_start (findServerFunctions ast)) \<and>
   sorted (map (\<lambda>f. - sf_start f) (sortDescending sf_start (findServerFunctions ast)))"
  by (simp add: process_def Let_def sortDescending_sorted)

section \<open>Spans and the buffer they are applied to\<close>

text \<open>
  C3, on \<open>docTwo\<close>, which declares \<open>server_a\<close> and then \<open>server_b\<close> and calls \<open>server_a\<close> in
  the markup. The functions are processed in descending order of their start. After
  \<open>server_b\<close> is processed the buffer is \<open>docTwoAfterB\<close>, where the call is at 49 to 59; the
  tree kept by the transformer is still the tree of \<open>docTwo\<close>, where the call is at 78 to
  88, past the end of the buffer. The call's span from that tree is what is applied to
  the buffer: the fetch expression is appended and the call is left as it was.
\<close>

theorem stale_call_span:
  "map sf_name (sortDescending sf_start (findServerFunctions astTwo)) =
     [''server_b'', ''server_a''] \<and>
   transformServerFunction exampleHost astTwo docTwo (findServerFunctions astTwo ! 1)
     ''server_b_wMcpn0Ab'' = docTwoAfterB \<and>
   parse exampleHost docTwoAfterB = Inr astTwoAfterB \<and>
   findFunctionCalls astTwoAfterB ''server_a'' =
     [\<lparr>fc_start = 49, fc_end = 59, fc_arguments = \<lparr>sp_start = 58, sp_end = 58\<rparr>\<rparr>] \<and>
   findFunctionCalls astTwo ''server_a'' =
     [\<lparr>fc_start = 78, fc_end = 88, fc_arguments = \<lparr>sp_start = 87, sp_end = 87\<rparr>\<rparr>] \<and>
   slice docTwo 78 88 = ''server_a()'' \<and>
   slice docTwoAfterB 78 88 = [] \<and>
   rewriteCalls astTwo docTwoAfterB (findServerFunctions astTwo ! 0) ''server_a_xpGru_xm'' =
     docTwoAfterB @ fetchText ''server_a_xpGru_xm'' ''{}'' \<and>
   process exampleHost (Some pagePath) astTwo docTwo =
     transformServerFunction exampleHost astTwo docTwoAfterB (findServerFunctions astTwo ! 0)
       ''server_a_xpGru_xm''"
  by code_simp

section \<open>Call sites after the transform\<close>

text \<open>
  C1, on \<open>docTwo\<close>. The document has one call of \<open>server_a\<close>. In the text the transform
  returns, the definitions are gone, the call \<open>server_a()\<close> is still in the markup, and the
  fetch expression stands after the markup instead of in the call's place.
\<close>

theorem call_left_in_place:
  "length (findFunctionCalls astTwo ''server_a'') = 1 \<and>
   code (transformFile exampleHost docTwo (Some pagePath)) =
     ''<script>\<newline>'' @
     ''</script>\<newline>'' @
     ''{server_a()}'' @ fetchText ''server_a_xpGru_xm'' ''{}''"
  by code_simp

end
